theory Spec2Isabelle
  imports Main
begin

section \<open>Values, exceptions and trace records\<close>

text \<open>
  The Python values that \<open>src/distributed.py\<close> handles. Tensor elements are never read
  by this code, so a tensor carries its shape and an opaque list of elements. A
  distributed tensor carries its global shape, the shape of its local shard
  (\<open>_local_tensor.shape\<close>), its placement spec (\<open>_spec\<close>) and the local elements.
\<close>

type_synonym shape = "nat list"

datatype placement = Shard nat | Replicate | Partial

datatype dtensor_spec = DTensorSpec (placements: "placement list")

datatype pyvalue =
    VNone
  | VInt int
  | VStr string
  | VTensor shape "int list"
  | VDTensor shape shape dtensor_spec "int list"
  | VTuple "pyvalue list"
  | VList "pyvalue list"
  | VModule "(string \<times> pyvalue) list"

datatype pytype = TyNone | TyInt | TyStr | TyTensor | TyDTensor | TyTuple | TyList | TyModule

fun type_of :: "pyvalue \<Rightarrow> pytype" where
  "type_of VNone = TyNone"
| "type_of (VInt _) = TyInt"
| "type_of (VStr _) = TyStr"
| "type_of (VTensor _ _) = TyTensor"
| "type_of (VDTensor _ _ _ _) = TyDTensor"
| "type_of (VTuple _) = TyTuple"
| "type_of (VList _) = TyList"
| "type_of (VModule _) = TyModule"

text \<open>Every raise of the source is a value of \<open>exn\<close>; a result is \<open>exn + 'a\<close>.\<close>

datatype exn =
    UnboundLocalError string
  | AttributeError string
  | KeyError string
  | TypeError string
  | UnboundReference string
  | AttributeResolutionError string
  | RuntimeError string

text \<open>The attribute read \<open>v.shape\<close>: only tensors have it.\<close>

fun shape_attr :: "pyvalue \<Rightarrow> exn + shape" where
  "shape_attr (VTensor s _) = Inr s"
| "shape_attr (VDTensor s _ _ _) = Inr s"
| "shape_attr _ = Inl (AttributeError ''shape'')"

text \<open>
  The messages handed to \<open>rlog\<close>, one constructor for each f-string of the source, with
  the values the f-string interpolates.
\<close>

datatype level = Debug | Info

datatype log_msg =
    MsgPlaceholder string pytype shape
  | MsgGetAttr string pytype shape
  | MsgLocalShape shape dtensor_spec
  | MsgRunning string
  | MsgArgDTensor nat shape shape dtensor_spec
  | MsgArgTensor nat shape
  | MsgArgOther nat pyvalue
  | MsgResDTensor nat shape shape dtensor_spec
  | MsgExpectedSpec dtensor_spec
  | MsgResTensor nat shape
  | MsgResOther nat pyvalue
  | MsgDistributing
  | MsgDistributionDone int
  | MsgStartingForward
  | MsgShardingInput "placement list"
  | MsgForwardFinished int

type_synonym log_record = "level \<times> log_msg"

text \<open>
  \<open>rlog(logger, rank, msg, level)\<close> is imported from \<open>chop.distributed.utils\<close>; it is a
  parameter of the model: any function from the rank, the message and the level to a
  change of the trace written so far.
\<close>

type_synonym rlog = "int \<Rightarrow> log_msg \<Rightarrow> level \<Rightarrow> log_record list \<Rightarrow> log_record list"

section \<open>The graph\<close>

text \<open>
  An argument of a node: a literal, a reference to another node by name, or a tuple or
  list of arguments.
\<close>

datatype arg = ALit pyvalue | ARef string | ATuple "arg list" | AList "arg list"

text \<open>
  \<open>node.target\<close> is a dotted attribute path (for \<open>get_attr\<close>) or a callable (for
  \<open>call_function\<close>); a callable takes the positional and the keyword arguments and
  returns a value or raises.
\<close>

datatype target =
    TargetName string
  | TargetFn "pyvalue list \<Rightarrow> (string \<times> pyvalue) list \<Rightarrow> exn + pyvalue"

text \<open>
  \<open>results\<close> is \<open>node.meta["mase"]["common"]["results"]\<close>: \<open>None\<close> when the key is absent,
  otherwise the dictionary from \<open>data_out_i\<close> to that output's metadata, of which this
  code reads the entry \<open>dtensor_spec\<close> only (\<open>None\<close> when that entry is absent).
\<close>

record node =
  name :: string
  op :: string
  target :: target
  args :: "arg list"
  kwargs :: "(string \<times> arg) list"
  results :: "(string \<rightharpoonup> dtensor_spec option) option"

text \<open>A MaseGraph: \<open>mg.fx_graph.nodes\<close> in declaration order, and \<open>mg.model\<close>.\<close>

record mase_graph =
  nodes :: "node list"
  model :: pyvalue

section \<open>Helpers imported by the source\<close>

text \<open>Decimal digits of a natural number, as Python's \<open>str\<close> and f-strings print it.\<close>

definition digit_char :: "nat \<Rightarrow> char" where
  "digit_char d = ''0123456789'' ! d"

function str_nat :: "nat \<Rightarrow> string" where
  "str_nat n = (if n < 10 then [digit_char n] else str_nat (n div 10) @ [digit_char (n mod 10)])"
  by pat_completeness auto
termination
  by (relation "measure id") auto

declare str_nat.simps [simp del]

definition str_int :: "int \<Rightarrow> string" where
  "str_int i = (if i < 0 then CHR ''-'' # str_nat (nat (- i)) else str_nat (nat i))"

text \<open>
  Modelled from the spec: \<open>load_arg\<close> (imported from \<open>chop.passes.graph.analysis.utils\<close>,
  not part of the sources). It resolves each argument reference against the Environment,
  recursively for nested container arguments, and fails with \<open>UnboundReference\<close> when a
  referenced name is not yet present in the Environment.
\<close>

fun load_arg :: "arg \<Rightarrow> (string \<rightharpoonup> pyvalue) \<Rightarrow> exn + pyvalue"
  and load_arg_seq :: "arg list \<Rightarrow> (string \<rightharpoonup> pyvalue) \<Rightarrow> exn + pyvalue list" where
  "load_arg (ALit v) env = Inr v"
| "load_arg (ARef n) env = (case env n of None \<Rightarrow> Inl (UnboundReference n) | Some v \<Rightarrow> Inr v)"
| "load_arg (ATuple as) env =
     (case load_arg_seq as env of Inl e \<Rightarrow> Inl e | Inr vs \<Rightarrow> Inr (VTuple vs))"
| "load_arg (AList as) env =
     (case load_arg_seq as env of Inl e \<Rightarrow> Inl e | Inr vs \<Rightarrow> Inr (VList vs))"
| "load_arg_seq [] env = Inr []"
| "load_arg_seq (a # as) env =
     (case load_arg a env of
        Inl e \<Rightarrow> Inl e
      | Inr v \<Rightarrow> (case load_arg_seq as env of Inl e \<Rightarrow> Inl e | Inr vs \<Rightarrow> Inr (v # vs)))"

text \<open>The keyword arguments: a dictionary from keyword to argument, loaded entry by entry.\<close>

fun load_kwargs :: "(string \<times> arg) list \<Rightarrow> (string \<rightharpoonup> pyvalue) \<Rightarrow> exn + (string \<times> pyvalue) list" where
  "load_kwargs [] env = Inr []"
| "load_kwargs ((k, a) # kas) env =
     (case load_arg a env of
        Inl e \<Rightarrow> Inl e
      | Inr v \<Rightarrow> (case load_kwargs kas env of Inl e \<Rightarrow> Inl e | Inr kvs \<Rightarrow> Inr ((k, v) # kvs)))"

text \<open>
  Modelled from the spec: \<open>fetch_attr\<close> (imported from \<open>chop.passes.graph.analysis.utils\<close>,
  not part of the sources). It resolves the named attribute on the model by a dotted-path
  lookup through nested sub-structures and fails with \<open>AttributeResolutionError\<close> when
  the path does not exist on the model.
\<close>

fun split_dots :: "string \<Rightarrow> string list" where
  "split_dots [] = [[]]"
| "split_dots (c # cs) =
     (if c = CHR ''.'' then [] # split_dots cs
      else (case split_dots cs of [] \<Rightarrow> [[c]] | w # ws \<Rightarrow> (c # w) # ws))"

fun fetch_path :: "pyvalue \<Rightarrow> string list \<Rightarrow> string \<Rightarrow> exn + pyvalue" where
  "fetch_path v [] path = Inr v"
| "fetch_path (VModule attrs) (a # as) path =
     (case map_of attrs a of
        None \<Rightarrow> Inl (AttributeResolutionError path)
      | Some v \<Rightarrow> fetch_path v as path)"
| "fetch_path v (a # as) path = Inl (AttributeResolutionError path)"

fun fetch_attr :: "pyvalue \<Rightarrow> target \<Rightarrow> exn + pyvalue" where
  "fetch_attr m (TargetName path) = fetch_path m (split_dots path) path"
| "fetch_attr m (TargetFn f) = Inl (AttributeError ''split'')"

text \<open>Calling \<open>node.target(*args, **kwargs)\<close>: a string is not callable.\<close>

fun call_target :: "target \<Rightarrow> pyvalue list \<Rightarrow> (string \<times> pyvalue) list \<Rightarrow> exn + pyvalue" where
  "call_target (TargetFn f) vs kvs = f vs kvs"
| "call_target (TargetName s) vs kvs = Inl (TypeError ''str object is not callable'')"

section \<open>The graph interpreter\<close>

text \<open>
  The loop variables of \<open>node_interpreter\<close>: the dictionary \<open>env\<close>, the local variable
  \<open>result\<close> (\<open>None\<close> until its first assignment; it keeps its value from one iteration
  to the next) and the trace written through \<open>rlog\<close>.
\<close>

record interp_state =
  env :: "string \<rightharpoonup> pyvalue"
  result :: "pyvalue option"
  trace :: "log_record list"

text \<open>Lines 40 to 47: the \<open>placeholder\<close> branch. The f-string reads \<open>inputs.shape\<close>.\<close>

definition exec_placeholder :: "rlog \<Rightarrow> int \<Rightarrow> pyvalue \<Rightarrow> node \<Rightarrow> interp_state \<Rightarrow> exn + interp_state" where
  "exec_placeholder rlog rank inputs nd st =
     (case shape_attr inputs of
        Inl e \<Rightarrow> Inl e
      | Inr s \<Rightarrow>
          Inr (st\<lparr>result := Some inputs,
                 trace := rlog rank (MsgPlaceholder (name nd) (type_of inputs) s) Debug (trace st)\<rparr>))"

text \<open>
  Lines 49 to 63: the \<open>get_attr\<close> branch. Its first message prints the type and shape of
  \<open>inputs\<close>, as the source does; the second one is written for a DTensor only.
\<close>

definition exec_get_attr :: "rlog \<Rightarrow> int \<Rightarrow> pyvalue \<Rightarrow> pyvalue \<Rightarrow> node \<Rightarrow> interp_state \<Rightarrow> exn + interp_state" where
  "exec_get_attr rlog rank mdl inputs nd st =
     (case fetch_attr mdl (target nd) of
        Inl e \<Rightarrow> Inl e
      | Inr r \<Rightarrow>
          (case shape_attr inputs of
             Inl e \<Rightarrow> Inl e
           | Inr s \<Rightarrow>
               (let tr1 = rlog rank (MsgGetAttr (name nd) (type_of inputs) s) Debug (trace st);
                    tr2 = (case r of
                             VDTensor gs ls sp d \<Rightarrow> rlog rank (MsgLocalShape ls sp) Debug tr1
                           | _ \<Rightarrow> tr1)
                in Inr (st\<lparr>result := Some r, trace := tr2\<rparr>))))"

text \<open>Lines 70 to 91: one message for each positional argument, by its type.\<close>

fun log_args :: "rlog \<Rightarrow> int \<Rightarrow> nat \<Rightarrow> pyvalue list \<Rightarrow> log_record list \<Rightarrow> log_record list" where
  "log_args rlog rank i [] tr = tr"
| "log_args rlog rank i (a # as) tr =
     log_args rlog rank (Suc i) as
       (case a of
          VDTensor gs ls sp d \<Rightarrow> rlog rank (MsgArgDTensor i gs ls sp) Debug tr
        | VTensor s d \<Rightarrow> rlog rank (MsgArgTensor i s) Debug tr
        | _ \<Rightarrow> rlog rank (MsgArgOther i a) Debug tr)"

text \<open>
  Lines 105 to 114: for a DTensor result, when the node's metadata has \<open>results\<close>, the
  expected spec is read from \<open>results["data_out_<ridx>"]["dtensor_spec"]\<close>; a missing key
  raises.
\<close>

definition expected_spec :: "node \<Rightarrow> nat \<Rightarrow> exn + dtensor_spec option" where
  "expected_spec nd ridx =
     (case results nd of
        None \<Rightarrow> Inr None
      | Some rs \<Rightarrow>
          (case rs (''data_out_'' @ str_nat ridx) of
             None \<Rightarrow> Inl (KeyError (''data_out_'' @ str_nat ridx))
           | Some None \<Rightarrow> Inl (KeyError ''dtensor_spec'')
           | Some (Some sp) \<Rightarrow> Inr (Some sp)))"

text \<open>Lines 96 to 128: one message (or two) for each element of \<open>rlist\<close>.\<close>

fun log_results :: "rlog \<Rightarrow> int \<Rightarrow> node \<Rightarrow> nat \<Rightarrow> pyvalue list \<Rightarrow> log_record list \<Rightarrow> exn + log_record list" where
  "log_results rlog rank nd i [] tr = Inr tr"
| "log_results rlog rank nd i (r # rs) tr =
     (case r of
        VDTensor gs ls sp d \<Rightarrow>
          (case expected_spec nd i of
             Inl e \<Rightarrow> Inl e
           | Inr None \<Rightarrow>
               log_results rlog rank nd (Suc i) rs (rlog rank (MsgResDTensor i gs ls sp) Debug tr)
           | Inr (Some node_spec) \<Rightarrow>
               log_results rlog rank nd (Suc i) rs
                 (rlog rank (MsgExpectedSpec node_spec) Debug
                    (rlog rank (MsgResDTensor i gs ls sp) Debug tr)))
      | VTensor s d \<Rightarrow> log_results rlog rank nd (Suc i) rs (rlog rank (MsgResTensor i s) Debug tr)
      | _ \<Rightarrow> log_results rlog rank nd (Suc i) rs (rlog rank (MsgResOther i r) Debug tr))"

text \<open>Line 95: \<open>rlist = (result,) if not isinstance(result, (tuple, list)) else result\<close>.\<close>

fun rlist_of :: "pyvalue \<Rightarrow> pyvalue list" where
  "rlist_of (VTuple vs) = vs"
| "rlist_of (VList vs) = vs"
| "rlist_of v = [v]"

text \<open>Lines 65 to 128: the \<open>call_function\<close> branch.\<close>

definition exec_call_function :: "rlog \<Rightarrow> int \<Rightarrow> node \<Rightarrow> interp_state \<Rightarrow> exn + interp_state" where
  "exec_call_function rlog rank nd st =
     (case load_arg_seq (args nd) (env st) of
        Inl e \<Rightarrow> Inl e
      | Inr vs \<Rightarrow>
          (case load_kwargs (kwargs nd) (env st) of
             Inl e \<Rightarrow> Inl e
           | Inr kvs \<Rightarrow>
               (let tr1 = log_args rlog rank 0 vs (rlog rank (MsgRunning (name nd)) Info (trace st))
                in (case call_target (target nd) vs kvs of
                      Inl e \<Rightarrow> Inl e
                    | Inr r \<Rightarrow>
                        (case log_results rlog rank nd 0 (rlist_of r) tr1 of
                           Inl e \<Rightarrow> Inl e
                         | Inr tr2 \<Rightarrow> Inr (st\<lparr>result := Some r, trace := tr2\<rparr>))))))"

text \<open>
  Lines 39 to 131: one iteration of the loop. The \<open>if\<close>/\<open>elif\<close> chain has no \<open>else\<close>;
  line 131 then reads the local variable \<open>result\<close>, which raises when it was never
  assigned.
\<close>

definition exec_node :: "rlog \<Rightarrow> int \<Rightarrow> pyvalue \<Rightarrow> pyvalue \<Rightarrow> node \<Rightarrow> interp_state \<Rightarrow> exn + interp_state" where
  "exec_node rlog rank mdl inputs nd st =
     (case (if op nd = ''placeholder'' then exec_placeholder rlog rank inputs nd st
            else if op nd = ''get_attr'' then exec_get_attr rlog rank mdl inputs nd st
            else if op nd = ''call_function'' then exec_call_function rlog rank nd st
            else Inr st) of
        Inl e \<Rightarrow> Inl e
      | Inr st' \<Rightarrow>
          (case result st' of
             None \<Rightarrow> Inl (UnboundLocalError ''result'')
           | Some r \<Rightarrow> Inr (st'\<lparr>env := (env st')(name nd \<mapsto> r)\<rparr>)))"

text \<open>Line 38: the loop over the nodes, in declaration order.\<close>

fun run_nodes :: "rlog \<Rightarrow> int \<Rightarrow> pyvalue \<Rightarrow> pyvalue \<Rightarrow> node list \<Rightarrow> interp_state \<Rightarrow> exn + interp_state" where
  "run_nodes rlog rank mdl inputs [] st = Inr st"
| "run_nodes rlog rank mdl inputs (nd # nds) st =
     (case exec_node rlog rank mdl inputs nd st of
        Inl e \<Rightarrow> Inl e
      | Inr st' \<Rightarrow> run_nodes rlog rank mdl inputs nds st')"

text \<open>Line 37: the state in which the loop starts, with the trace written so far.\<close>

definition init_state :: "log_record list \<Rightarrow> interp_state" where
  "init_state tr = \<lparr>env = Map.empty, result = None, trace = tr\<rparr>"

text \<open>
  The loop of \<open>node_interpreter\<close> from its start: the state in which the function body ends,
  or the exception that leaves it.
\<close>

definition interpret_loop :: "rlog \<Rightarrow> int \<Rightarrow> mase_graph \<Rightarrow> pyvalue \<Rightarrow> log_record list \<Rightarrow> exn + interp_state" where
  "interpret_loop rlog rank mg inputs tr =
     run_nodes rlog rank (model mg) inputs (nodes mg) (init_state tr)"

text \<open>
  Lines 27 to 131: \<open>node_interpreter\<close>. The function has no \<open>return\<close> statement: when the
  loop ends it returns Python's \<open>None\<close>, and \<open>env\<close> goes out of scope. The model returns
  that value together with the trace.
\<close>

definition node_interpreter :: "rlog \<Rightarrow> int \<Rightarrow> mase_graph \<Rightarrow> pyvalue \<Rightarrow> log_record list \<Rightarrow> exn + (pyvalue \<times> log_record list)" where
  "node_interpreter rlog rank mg inputs tr =
     (case interpret_loop rlog rank mg inputs tr of
        Inl e \<Rightarrow> Inl e
      | Inr st \<Rightarrow> Inr (VNone, trace st))"

section \<open>The device orchestrator\<close>

text \<open>
  The arguments of \<open>device_fn\<close>. Of \<open>model_config\<close> it reads \<open>hidden_size\<close>; of
  \<open>cli_args\<close> (an argument namespace) it reads \<open>batch_size\<close> and \<open>sequence_length\<close>, and
  hands the namespace with its other attributes on to \<open>autosharding_runner\<close>.
\<close>

type_synonym model_class = string

record model_config =
  hidden_size :: nat

record cli_args =
  batch_size :: nat
  sequence_length :: nat
  others :: "(string \<times> int) list"

type_synonym sharding_map = "(string \<times> placement list) list"

type_synonym pass_outputs = "string \<rightharpoonup> (string \<rightharpoonup> sharding_map)"

datatype device_mesh = DeviceMesh string pyvalue

text \<open>
  The calls that leave \<open>device_fn\<close>, with their arguments: \<open>dist.init_process_group\<close>,
  \<open>torch.cuda.set_device(torch.device(..))\<close>, \<open>torch.randn\<close>, \<open>autosharding_runner\<close>, the
  \<open>DeviceMesh\<close> constructor, \<open>distributed_timing(distribute_module, ..)\<close> with the rank
  and the sharding map of the \<open>partial\<close>, \<open>print\<close> with the value printed,
  \<open>distribute_tensor\<close>, an invocation \<open>fn(*args)\<close> of the model by the timing routine
  (\<open>True\<close> when it is under timing instrumentation), the collective reduction of a time
  across the ranks, and \<open>dist.destroy_process_group\<close>.
\<close>

datatype call =
    InitProcessGroup string int int
  | SetDevice string int
  | Randn shape
  | AutoshardingRunner model_class model_config cli_args pyvalue
  | NewDeviceMesh string pyvalue
  | DistributeModule pyvalue device_mesh int sharding_map
  | PrintCode pyvalue
  | DistributeTensor pyvalue device_mesh "placement list"
  | Invoke pyvalue "pyvalue list" bool
  | AllReduce int
  | DestroyProcessGroup

text \<open>
  The process-wide state: \<open>os.environ\<close>, the calls made so far in order, and the trace
  written through \<open>rlog\<close>.
\<close>

record world =
  environ :: "string \<rightharpoonup> string"
  calls :: "call list"
  log :: "log_record list"

text \<open>
  The functions \<open>device_fn\<close> imports are parameters of the model. Each one sees the world
  in which it is called and its arguments, and returns its value or raises (\<open>Some e\<close> for
  a function without a value). Durations are opaque. The last three fields are what the
  timing routine is made of: one invocation of the model, with its value and the time it
  takes, the aggregate of the timings of the repeats, and the collective reduction of a
  time across the ranks.
\<close>

record externals =
  init_process_group :: "world \<Rightarrow> string \<Rightarrow> int \<Rightarrow> int \<Rightarrow> exn option"
  set_device :: "world \<Rightarrow> string \<Rightarrow> int \<Rightarrow> exn option"
  randn :: "world \<Rightarrow> shape \<Rightarrow> exn + pyvalue"
  autosharding_runner :: "world \<Rightarrow> model_class \<Rightarrow> model_config \<Rightarrow> cli_args \<Rightarrow> pyvalue \<Rightarrow> exn + mase_graph \<times> pass_outputs"
  new_device_mesh :: "world \<Rightarrow> string \<Rightarrow> pyvalue \<Rightarrow> exn option"
  distribute_module :: "world \<Rightarrow> pyvalue \<Rightarrow> device_mesh \<Rightarrow> int \<Rightarrow> sharding_map \<Rightarrow> exn + pyvalue \<times> int"
  distribute_tensor :: "world \<Rightarrow> pyvalue \<Rightarrow> device_mesh \<Rightarrow> placement list \<Rightarrow> exn + pyvalue"
  destroy_process_group :: "world \<Rightarrow> exn option"
  invoke :: "world \<Rightarrow> pyvalue \<Rightarrow> pyvalue list \<Rightarrow> exn + pyvalue \<times> int"
  aggregate :: "int list \<Rightarrow> int"
  all_reduce :: "world \<Rightarrow> int \<Rightarrow> exn + int"

text \<open>
  A statement of \<open>device_fn\<close> takes the world and returns its value, or the exception it
  raises, with the world it leaves. An exception skips the statements that follow.
\<close>

type_synonym 'a step = "world \<Rightarrow> (exn + 'a) \<times> world"

definition step_bind :: "'a step \<Rightarrow> ('a \<Rightarrow> 'b step) \<Rightarrow> 'b step" where
  "step_bind m f w = (case m w of (Inl e, w') \<Rightarrow> (Inl e, w') | (Inr a, w') \<Rightarrow> f a w')"

definition step_return :: "'a \<Rightarrow> 'a step" where
  "step_return a w = (Inr a, w)"

definition step_of :: "exn + 'a \<Rightarrow> 'a step" where
  "step_of r w = (r, w)"

definition setenv :: "string \<Rightarrow> string \<Rightarrow> unit step" where
  "setenv k v w = (Inr (), w\<lparr>environ := (environ w)(k \<mapsto> v)\<rparr>)"

definition record_call :: "call \<Rightarrow> world \<Rightarrow> world" where
  "record_call c w = w\<lparr>calls := calls w @ [c]\<rparr>"

definition call_ext :: "call \<Rightarrow> (world \<Rightarrow> exn + 'a) \<Rightarrow> 'a step" where
  "call_ext c f w = (f w, record_call c w)"

definition call_proc :: "call \<Rightarrow> (world \<Rightarrow> exn option) \<Rightarrow> unit step" where
  "call_proc c f w = ((case f w of None \<Rightarrow> Inr () | Some e \<Rightarrow> Inl e), record_call c w)"

definition log_step :: "rlog \<Rightarrow> int \<Rightarrow> log_msg \<Rightarrow> level \<Rightarrow> unit step" where
  "log_step rlog rank msg lvl w = (Inr (), w\<lparr>log := rlog rank msg lvl (log w)\<rparr>)"

text \<open>Lines 146 to 148: the three assignments to \<open>os.environ\<close>.\<close>

definition setup_environ :: "int \<Rightarrow> unit step" where
  "setup_environ rank =
     step_bind (setenv ''MASTER_ADDR'' ''localhost'') (\<lambda>_.
     step_bind (setenv ''MASTER_PORT'' ''12355'') (\<lambda>_.
     setenv ''RANK'' (str_int rank)))"

text \<open>Lines 151 to 153: joining the process group and binding the device.\<close>

definition initialize :: "externals \<Rightarrow> int \<Rightarrow> int \<Rightarrow> unit step" where
  "initialize X rank world_size =
     step_bind (call_proc (InitProcessGroup ''nccl'' rank world_size)
                  (\<lambda>w. init_process_group X w ''nccl'' rank world_size)) (\<lambda>_.
     call_proc (SetDevice ''cuda'' rank) (\<lambda>w. set_device X w ''cuda'' rank))"

text \<open>Lines 156 to 164: the synthesized input and the autosharding pass.\<close>

definition run_autosharding :: "externals \<Rightarrow> model_class \<Rightarrow> model_config \<Rightarrow> cli_args \<Rightarrow> (pyvalue \<times> mase_graph \<times> pass_outputs) step" where
  "run_autosharding X model_class model_config cli_args =
     step_bind (call_ext (Randn [batch_size cli_args, sequence_length cli_args, hidden_size model_config])
                  (\<lambda>w. randn X w [batch_size cli_args, sequence_length cli_args, hidden_size model_config])) (\<lambda>inputs.
     step_bind (call_ext (AutoshardingRunner model_class model_config cli_args inputs)
                  (\<lambda>w. autosharding_runner X w model_class model_config cli_args inputs)) (\<lambda>(mg, pass_outputs).
     step_return (inputs, mg, pass_outputs)))"

text \<open>
  Lines 176 to 178: \<open>pass_outputs["autosharding_analysis_pass"]["tensor_sharding_map"]\<close>.
\<close>

definition tensor_sharding_map :: "pass_outputs \<Rightarrow> exn + sharding_map" where
  "tensor_sharding_map pass_outputs =
     (case pass_outputs ''autosharding_analysis_pass'' of
        None \<Rightarrow> Inl (KeyError ''autosharding_analysis_pass'')
      | Some d \<Rightarrow>
          (case d ''tensor_sharding_map'' of
             None \<Rightarrow> Inl (KeyError ''tensor_sharding_map'')
           | Some m \<Rightarrow> Inr m))"

text \<open>
  The attribute read \<open>mg.model.code\<close> of line 186: a module has the attributes it lists,
  any other value has none.
\<close>

fun code_attr :: "pyvalue \<Rightarrow> exn + pyvalue" where
  "code_attr (VModule attrs) =
     (case map_of attrs ''code'' of None \<Rightarrow> Inl (AttributeError ''code'') | Some c \<Rightarrow> Inr c)"
| "code_attr v = Inl (AttributeError ''code'')"

text \<open>
  Lines 167 to 186: the mesh, the distribution of the parameters (\<open>mg.model\<close> is replaced
  by the distributed model) and, on rank 0, the print of the model's code, which raises
  when the distributed model has no attribute \<open>code\<close>.
\<close>

definition distribute_parameters :: "externals \<Rightarrow> rlog \<Rightarrow> int \<Rightarrow> pyvalue \<Rightarrow> mase_graph \<Rightarrow> pass_outputs \<Rightarrow> (device_mesh \<times> mase_graph) step" where
  "distribute_parameters X rlog rank device_mesh mg pass_outputs =
     step_bind (call_proc (NewDeviceMesh ''cuda'' device_mesh)
                  (\<lambda>w. new_device_mesh X w ''cuda'' device_mesh)) (\<lambda>_.
     step_bind (log_step rlog rank MsgDistributing Info) (\<lambda>_.
     step_bind (step_of (tensor_sharding_map pass_outputs)) (\<lambda>tsm.
     step_bind (call_ext (DistributeModule (model mg) (DeviceMesh ''cuda'' device_mesh) rank tsm)
                  (\<lambda>w. distribute_module X w (model mg) (DeviceMesh ''cuda'' device_mesh) rank tsm)) (\<lambda>(m, dist_time).
     step_bind (log_step rlog rank (MsgDistributionDone dist_time) Info) (\<lambda>_.
     step_bind (if rank = 0
                then step_bind (step_of (code_attr m)) (\<lambda>code.
                     call_proc (PrintCode code) (\<lambda>w. None))
                else step_return ()) (\<lambda>_.
     step_return (DeviceMesh ''cuda'' device_mesh, mg\<lparr>model := m\<rparr>)))))))"

text \<open>
  Lines 192 to 196: the loop that reads the placements of the input. Every
  \<open>placeholder\<close> node assigns \<open>input_sharding\<close>, so the last one wins; the variable stays
  unassigned when there is none.
\<close>

definition node_placements :: "node \<Rightarrow> exn + placement list" where
  "node_placements nd =
     (case results nd of
        None \<Rightarrow> Inl (KeyError ''results'')
      | Some rs \<Rightarrow>
          (case rs ''data_out_0'' of
             None \<Rightarrow> Inl (KeyError ''data_out_0'')
           | Some None \<Rightarrow> Inl (KeyError ''dtensor_spec'')
           | Some (Some sp) \<Rightarrow> Inr (placements sp)))"

fun input_sharding_loop :: "node list \<Rightarrow> placement list option \<Rightarrow> exn + placement list option" where
  "input_sharding_loop [] input_sharding = Inr input_sharding"
| "input_sharding_loop (nd # nds) input_sharding =
     (if op nd = ''placeholder'' then
        (case node_placements nd of
           Inl e \<Rightarrow> Inl e
         | Inr pl \<Rightarrow> input_sharding_loop nds (Some pl))
      else input_sharding_loop nds input_sharding)"

text \<open>
  Lines 189 to 203: the input is distributed with the placements read from the graph.
  Line 198 reads \<open>input_sharding\<close>, which raises when no node assigned it.
\<close>

definition shard_input :: "externals \<Rightarrow> rlog \<Rightarrow> int \<Rightarrow> mase_graph \<Rightarrow> device_mesh \<Rightarrow> pyvalue \<Rightarrow> pyvalue step" where
  "shard_input X rlog rank mg mesh inputs =
     step_bind (log_step rlog rank MsgStartingForward Info) (\<lambda>_.
     step_bind (step_of (input_sharding_loop (nodes mg) None)) (\<lambda>found.
     step_bind (step_of (case found of
                           None \<Rightarrow> Inl (UnboundLocalError ''input_sharding'')
                         | Some pl \<Rightarrow> Inr pl)) (\<lambda>input_sharding.
     step_bind (log_step rlog rank (MsgShardingInput input_sharding) Debug) (\<lambda>_.
     call_ext (DistributeTensor inputs mesh input_sharding)
       (\<lambda>w. distribute_tensor X w inputs mesh input_sharding)))))"

text \<open>
  Modelled from the spec: \<open>distributed_average_timing\<close> (imported from
  \<open>chop.distributed.utils\<close>, not part of the sources). It invokes \<open>fn\<close> on \<open>args\<close> as an
  uninstrumented warm-up repeated \<open>warmup_iters\<close> times, then repeated \<open>repeat\<close> times
  under timing instrumentation; the timings are aggregated across the repeats and across
  the ranks by a collective reduction. It returns the value of the last timed invocation
  and the reduced time.
\<close>

fun invoke_repeat :: "externals \<Rightarrow> pyvalue \<Rightarrow> pyvalue list \<Rightarrow> bool \<Rightarrow> nat \<Rightarrow> (pyvalue \<times> int) list step" where
  "invoke_repeat X fn xs timed 0 = step_return []"
| "invoke_repeat X fn xs timed (Suc n) =
     step_bind (call_ext (Invoke fn xs timed) (\<lambda>w. invoke X w fn xs)) (\<lambda>r.
     step_bind (invoke_repeat X fn xs timed n) (\<lambda>rs.
     step_return (r # rs)))"

definition distributed_average_timing :: "externals \<Rightarrow> pyvalue \<Rightarrow> pyvalue list \<Rightarrow> nat \<Rightarrow> nat \<Rightarrow> (pyvalue \<times> int) step" where
  "distributed_average_timing X fn xs repeat warmup_iters =
     step_bind (invoke_repeat X fn xs False warmup_iters) (\<lambda>_.
     step_bind (invoke_repeat X fn xs True repeat) (\<lambda>rs.
     step_bind (call_ext (AllReduce (aggregate X (map snd rs)))
                  (\<lambda>w. all_reduce X w (aggregate X (map snd rs)))) (\<lambda>time_taken.
     step_return (if rs = [] then VNone else fst (last rs), time_taken))))"

text \<open>Lines 205 to 211: the timed forward passes, with \<open>repeat=4\<close> and \<open>warmup_iters=2\<close>.\<close>

definition forward_pass :: "externals \<Rightarrow> rlog \<Rightarrow> int \<Rightarrow> mase_graph \<Rightarrow> pyvalue \<Rightarrow> unit step" where
  "forward_pass X rlog rank mg inputs =
     step_bind (distributed_average_timing X (model mg) [inputs] 4 2) (\<lambda>(out, time_taken).
     log_step rlog rank (MsgForwardFinished time_taken) Info)"

text \<open>
  Lines 134 to 214: \<open>device_fn\<close>. The statements follow one another with no \<open>try\<close>
  around any of them; line 214 is the last statement.
\<close>

definition device_fn :: "externals \<Rightarrow> rlog \<Rightarrow> int \<Rightarrow> int \<Rightarrow> pyvalue \<Rightarrow> model_class \<Rightarrow> model_config \<Rightarrow> cli_args \<Rightarrow> unit step" where
  "device_fn X rlog rank world_size device_mesh model_class model_config cli_args =
     step_bind (setup_environ rank) (\<lambda>_.
     step_bind (initialize X rank world_size) (\<lambda>_.
     step_bind (run_autosharding X model_class model_config cli_args) (\<lambda>(inputs, mg, pass_outputs).
     step_bind (distribute_parameters X rlog rank device_mesh mg pass_outputs) (\<lambda>(mesh, mg').
     step_bind (shard_input X rlog rank mg' mesh inputs) (\<lambda>dinputs.
     step_bind (forward_pass X rlog rank mg' dinputs) (\<lambda>_.
     call_proc DestroyProcessGroup (\<lambda>w. destroy_process_group X w)))))))"

text \<open>
  Lines 146 to 211: the statements of \<open>device_fn\<close> before its last one, on their own.
\<close>

definition before_release :: "externals \<Rightarrow> rlog \<Rightarrow> int \<Rightarrow> int \<Rightarrow> pyvalue \<Rightarrow> model_class \<Rightarrow> model_config \<Rightarrow> cli_args \<Rightarrow> unit step" where
  "before_release X rlog rank world_size device_mesh model_class model_config cli_args =
     step_bind (setup_environ rank) (\<lambda>_.
     step_bind (initialize X rank world_size) (\<lambda>_.
     step_bind (run_autosharding X model_class model_config cli_args) (\<lambda>(inputs, mg, pass_outputs).
     step_bind (distribute_parameters X rlog rank device_mesh mg pass_outputs) (\<lambda>(mesh, mg').
     step_bind (shard_input X rlog rank mg' mesh inputs) (\<lambda>dinputs.
     forward_pass X rlog rank mg' dinputs)))))"

section \<open>Vocabulary of the properties\<close>

text \<open>The operation kinds that the \<open>if\<close>/\<open>elif\<close> chain of lines 40, 49 and 65 tests for.\<close>

definition op_kinds :: "string set" where
  "op_kinds = {''placeholder'', ''get_attr'', ''call_function''}"

text \<open>The names an argument refers to, and those of all arguments of a node.\<close>

fun refs_of :: "arg \<Rightarrow> string list"
  and refs_of_seq :: "arg list \<Rightarrow> string list" where
  "refs_of (ALit v) = []"
| "refs_of (ARef n) = [n]"
| "refs_of (ATuple as) = refs_of_seq as"
| "refs_of (AList as) = refs_of_seq as"
| "refs_of_seq [] = []"
| "refs_of_seq (a # as) = refs_of a @ refs_of_seq as"

fun refs_of_kwargs :: "(string \<times> arg) list \<Rightarrow> string list" where
  "refs_of_kwargs [] = []"
| "refs_of_kwargs ((k, a) # kas) = refs_of a @ refs_of_kwargs kas"

definition node_refs :: "node \<Rightarrow> string list" where
  "node_refs nd = refs_of_seq (args nd) @ refs_of_kwargs (kwargs nd)"

text \<open>
  What a run of the loop leaves apart from the trace: the exception, or the environment
  and the local variable \<open>result\<close>.
\<close>

definition outcome :: "exn + interp_state \<Rightarrow> exn + (string \<rightharpoonup> pyvalue) \<times> pyvalue option" where
  "outcome r = map_sum id (\<lambda>st. (env st, result st)) r"

text \<open>
  Invariants of a statement of \<open>device_fn\<close>: every call it makes satisfies \<open>P\<close>, and it
  leaves \<open>os.environ\<close> as it is.
\<close>

definition calls_sat :: "(call \<Rightarrow> bool) \<Rightarrow> 'a step \<Rightarrow> bool" where
  "calls_sat P m = (\<forall>w. \<exists>cs. calls (snd (m w)) = calls w @ cs \<and> (\<forall>c\<in>set cs. P c))"

definition env_kept :: "'a step \<Rightarrow> bool" where
  "env_kept m = (\<forall>w. environ (snd (m w)) = environ w)"

text \<open>
  The world after a line written through \<open>rlog\<close>, and the world in which \<open>device_fn\<close>
  calls \<open>distribute_tensor\<close>: the one that the distribution of the parameters left, with
  the trace lines of lines 189 and 198.
\<close>

definition logged :: "rlog \<Rightarrow> int \<Rightarrow> log_msg \<Rightarrow> level \<Rightarrow> world \<Rightarrow> world" where
  "logged rlog rank msg lvl w = w\<lparr>log := rlog rank msg lvl (log w)\<rparr>"

definition input_world :: "rlog \<Rightarrow> int \<Rightarrow> placement list \<Rightarrow> world \<Rightarrow> world" where
  "input_world rlog rank pl w =
     logged rlog rank (MsgShardingInput pl) Debug (logged rlog rank MsgStartingForward Info w)"

section \<open>Examples\<close>

text \<open>
  An instance of the \<open>rlog\<close> parameter, used in the examples: rank 0 appends the record
  to the trace and every other rank writes nothing.
\<close>

definition rlog_rank0 :: rlog where
  "rlog_rank0 rank msg lvl tr = (if rank = 0 then tr @ [(lvl, msg)] else tr)"

text \<open>An input tensor of shape 2 by 3, and nodes of each kind.\<close>

definition ex_input :: pyvalue where
  "ex_input = VTensor [2, 3] [1, 2, 3, 4, 5, 6]"

definition nd_x :: node where
  "nd_x = \<lparr>name = ''x'', op = ''placeholder'', target = TargetName ''x'', args = [], kwargs = [], results = None\<rparr>"

definition nd_split :: node where
  "nd_split = \<lparr>name = ''split'', op = ''call_function'',
     target = TargetFn (\<lambda>vs kvs. Inr (VTuple [VTensor [1, 3] [1, 2, 3], VTensor [1, 3] [4, 5, 6]])),
     args = [ARef ''x''], kwargs = [], results = None\<rparr>"

definition nd_boom :: node where
  "nd_boom = \<lparr>name = ''boom'', op = ''call_function'',
     target = TargetFn (\<lambda>vs kvs. Inl (RuntimeError ''boom'')),
     args = [ARef ''x''], kwargs = [], results = None\<rparr>"

definition nd_dangling :: node where
  "nd_dangling = \<lparr>name = ''y'', op = ''call_function'',
     target = TargetFn (\<lambda>vs kvs. Inr (VTuple vs)),
     args = [ARef ''x'', AList [ARef ''missing'']], kwargs = [], results = None\<rparr>"

definition nd_output :: node where
  "nd_output = \<lparr>name = ''output'', op = ''output'', target = TargetName ''output'',
     args = [ARef ''split''], kwargs = [], results = None\<rparr>"

definition ex_graph_boom :: mase_graph where
  "ex_graph_boom = \<lparr>nodes = [nd_x, nd_boom, nd_dangling], model = VNone\<rparr>"

definition ex_graph_split :: mase_graph where
  "ex_graph_split = \<lparr>nodes = [nd_x, nd_split], model = VNone\<rparr>"

definition ex_graph_dangling :: mase_graph where
  "ex_graph_dangling = \<lparr>nodes = [nd_x, nd_dangling, nd_split], model = VNone\<rparr>"

text \<open>The state in which the loop ends on \<open>ex_graph_split\<close>.\<close>

definition ex_split_state :: interp_state where
  "ex_split_state =
     \<lparr>env = [''x'' \<mapsto> ex_input, ''split'' \<mapsto> VTuple [VTensor [1, 3] [1, 2, 3], VTensor [1, 3] [4, 5, 6]]],
      result = Some (VTuple [VTensor [1, 3] [1, 2, 3], VTensor [1, 3] [4, 5, 6]]),
      trace = [(Debug, MsgPlaceholder ''x'' TyTensor [2, 3]), (Info, MsgRunning ''split''),
               (Debug, MsgArgTensor 0 [2, 3]), (Debug, MsgResTensor 0 [1, 3]),
               (Debug, MsgResTensor 1 [1, 3])]\<rparr>"

lemmas ex_defs = rlog_rank0_def ex_input_def nd_x_def nd_split_def nd_boom_def nd_dangling_def nd_output_def
lemmas interp_defs = node_interpreter_def interpret_loop_def init_state_def exec_node_def
  exec_placeholder_def exec_get_attr_def exec_call_function_def expected_spec_def

text \<open>
  A run of \<open>device_fn\<close>: a graph with one input node sharded along dimension 0 and an
  identity operation, a model that has its code, and imported functions that all succeed
  (the mean as the aggregate, one rank to reduce over); the same with a forward pass that
  raises; the same with a rendezvous that fails at the address \<open>device_fn\<close> sets; a second
  run configuration; and the calls and the trace of the run up to the release.
\<close>

definition nd_x_sharded :: node where
  "nd_x_sharded = \<lparr>name = ''x'', op = ''placeholder'', target = TargetName ''x'', args = [], kwargs = [],
     results = Some [''data_out_0'' \<mapsto> Some (DTensorSpec [Shard 0])]\<rparr>"

definition nd_identity :: node where
  "nd_identity = \<lparr>name = ''identity'', op = ''call_function'',
     target = TargetFn (\<lambda>vs kvs. case vs of [v] \<Rightarrow> Inr v | _ \<Rightarrow> Inl (TypeError ''identity takes one argument'')),
     args = [ARef ''x''], kwargs = [],
     results = Some [''data_out_0'' \<mapsto> Some (DTensorSpec [Shard 0])]\<rparr>"

definition ex_model :: pyvalue where
  "ex_model = VModule [(''code'', VStr ''def forward(self, x): return x'')]"

definition ex_mg :: mase_graph where
  "ex_mg = \<lparr>nodes = [nd_x_sharded, nd_identity], model = ex_model\<rparr>"

definition ex_pass_outputs :: pass_outputs where
  "ex_pass_outputs = [''autosharding_analysis_pass'' \<mapsto> [''tensor_sharding_map'' \<mapsto> []]]"

definition ex_externals :: externals where
  "ex_externals =
     \<lparr>init_process_group = (\<lambda>w backend rank world_size. None),
      set_device = (\<lambda>w kind index. None),
      randn = (\<lambda>w sh. Inr (VTensor sh [1, 2, 3, 4, 5, 6])),
      autosharding_runner = (\<lambda>w mc cfg cargs x. Inr (ex_mg, ex_pass_outputs)),
      new_device_mesh = (\<lambda>w kind layout. None),
      distribute_module = (\<lambda>w m mesh rank tsm. Inr (m, 7)),
      distribute_tensor = (\<lambda>w x mesh pl.
        case x of VTensor s d \<Rightarrow> Inr (VDTensor s s (DTensorSpec pl) d)
        | _ \<Rightarrow> Inl (TypeError ''not a tensor'')),
      destroy_process_group = (\<lambda>w. None),
      invoke = (\<lambda>w fn xs. case xs of [x] \<Rightarrow> Inr (x, 10 + int (length (calls w)))
        | _ \<Rightarrow> Inl (TypeError ''forward takes one argument'')),
      aggregate = (\<lambda>ts. sum_list ts div int (length ts)),
      all_reduce = (\<lambda>w t. Inr t)\<rparr>"

definition ex_externals_failing :: externals where
  "ex_externals_failing =
     ex_externals\<lparr>invoke := (\<lambda>w fn xs. Inl (RuntimeError ''forward pass failed''))\<rparr>"

definition ex_config :: model_config where
  "ex_config = \<lparr>hidden_size = 3\<rparr>"

definition ex_cli_args :: cli_args where
  "ex_cli_args = \<lparr>batch_size = 2, sequence_length = 1, others = [(''repeat'', 10), (''warmup_iters'', 5)]\<rparr>"

definition ex_world :: world where
  "ex_world = \<lparr>environ = Map.empty, calls = [], log = []\<rparr>"

definition ex_externals_no_rendezvous :: externals where
  "ex_externals_no_rendezvous =
     ex_externals\<lparr>init_process_group :=
       (\<lambda>w backend rank world_size.
          if environ w ''MASTER_ADDR'' = Some ''localhost'' \<and> environ w ''MASTER_PORT'' = Some ''12355''
          then Some (RuntimeError ''rendezvous timed out'') else None)\<rparr>"

definition ex_cli_args_other :: cli_args where
  "ex_cli_args_other = \<lparr>batch_size = 2, sequence_length = 1, others = [(''repeat'', 100), (''warmup_iters'', 50)]\<rparr>"

definition ex_dinput :: pyvalue where
  "ex_dinput = VDTensor [2, 1, 3] [2, 1, 3] (DTensorSpec [Shard 0]) [1, 2, 3, 4, 5, 6]"

definition ex_environ :: "string \<rightharpoonup> string" where
  "ex_environ = [''MASTER_ADDR'' \<mapsto> ''localhost'', ''MASTER_PORT'' \<mapsto> ''12355'', ''RANK'' \<mapsto> ''0'']"

definition ex_calls_input :: "call list" where
  "ex_calls_input =
     [InitProcessGroup ''nccl'' 0 1, SetDevice ''cuda'' 0, Randn [2, 1, 3],
      AutoshardingRunner ''GPT2'' ex_config ex_cli_args (VTensor [2, 1, 3] [1, 2, 3, 4, 5, 6]),
      NewDeviceMesh ''cuda'' (VList [VInt 0]),
      DistributeModule ex_model (DeviceMesh ''cuda'' (VList [VInt 0])) 0 [],
      PrintCode (VStr ''def forward(self, x): return x''),
      DistributeTensor (VTensor [2, 1, 3] [1, 2, 3, 4, 5, 6]) (DeviceMesh ''cuda'' (VList [VInt 0])) [Shard 0]]"

definition ex_calls :: "call list" where
  "ex_calls =
     ex_calls_input @
     [Invoke ex_model [ex_dinput] False, Invoke ex_model [ex_dinput] False,
      Invoke ex_model [ex_dinput] True, Invoke ex_model [ex_dinput] True,
      Invoke ex_model [ex_dinput] True, Invoke ex_model [ex_dinput] True,
      AllReduce 21]"

definition ex_log_input :: "log_record list" where
  "ex_log_input =
     [(Info, MsgDistributing), (Info, MsgDistributionDone 7), (Info, MsgStartingForward),
      (Debug, MsgShardingInput [Shard 0])]"

text \<open>
  The worlds of that run after the assignments to \<open>os.environ\<close>, after the join, after
  the autosharding pass, after the distribution of the parameters, after the distribution
  of the input and after the forward passes.
\<close>

definition ex_world_env :: world where
  "ex_world_env = \<lparr>environ = ex_environ, calls = [], log = []\<rparr>"

definition ex_world_joined :: world where
  "ex_world_joined = \<lparr>environ = ex_environ, calls = take 2 ex_calls_input, log = []\<rparr>"

definition ex_world_planned :: world where
  "ex_world_planned = \<lparr>environ = ex_environ, calls = take 4 ex_calls_input, log = []\<rparr>"

definition ex_world_materialized :: world where
  "ex_world_materialized = \<lparr>environ = ex_environ, calls = take 7 ex_calls_input,
     log = take 2 ex_log_input\<rparr>"

definition ex_world_input :: world where
  "ex_world_input = \<lparr>environ = ex_environ, calls = ex_calls_input, log = ex_log_input\<rparr>"

definition ex_world_executed :: world where
  "ex_world_executed = \<lparr>environ = ex_environ, calls = ex_calls,
     log = ex_log_input @ [(Info, MsgForwardFinished 21)]\<rparr>"

lemmas ex_device_defs = rlog_rank0_def nd_x_sharded_def nd_identity_def ex_model_def ex_mg_def
  ex_pass_outputs_def ex_externals_def ex_externals_failing_def ex_config_def ex_cli_args_def
  ex_world_def ex_dinput_def ex_environ_def ex_calls_input_def ex_calls_def ex_log_input_def

lemmas ex_world_defs = ex_world_env_def ex_world_joined_def ex_world_planned_def
  ex_world_materialized_def ex_world_input_def ex_world_executed_def

lemmas step_defs = step_bind_def step_return_def step_of_def setenv_def record_call_def call_ext_def
  call_proc_def log_step_def

lemmas device_defs = device_fn_def before_release_def setup_environ_def initialize_def
  run_autosharding_def distribute_parameters_def shard_input_def forward_pass_def
  distributed_average_timing_def

section \<open>Properties of the graph interpreter\<close>

lemma str_nat_digit: "n < 10 \<Longrightarrow> str_nat n = [digit_char n]"
  by (simp add: str_nat.simps)

lemma run_nodes_append:
  "run_nodes rlog rank mdl inputs (xs @ ys) st =
     (case run_nodes rlog rank mdl inputs xs st of
        Inl e \<Rightarrow> Inl e
      | Inr st' \<Rightarrow> run_nodes rlog rank mdl inputs ys st')"
  by (induction xs arbitrary: st) (auto split: sum.splits)

lemma exec_placeholder_env:
  "exec_placeholder rlog rank inputs nd st = Inr st' \<Longrightarrow> env st' = env st \<and> result st' = Some inputs"
  by (auto simp: exec_placeholder_def split: sum.splits)

lemma exec_get_attr_env:
  "exec_get_attr rlog rank mdl inputs nd st = Inr st' \<Longrightarrow>
     env st' = env st \<and> fetch_attr mdl (target nd) = Inr (the (result st')) \<and> result st' \<noteq> None"
  by (auto simp: exec_get_attr_def Let_def split: sum.splits)

lemma exec_call_function_env:
  "exec_call_function rlog rank nd st = Inr st' \<Longrightarrow>
     env st' = env st \<and>
     (\<exists>vs kvs r. load_arg_seq (args nd) (env st) = Inr vs \<and> load_kwargs (kwargs nd) (env st) = Inr kvs \<and>
        call_target (target nd) vs kvs = Inr r \<and> result st' = Some r)"
  by (auto simp: exec_call_function_def Let_def split: sum.splits)

lemma exec_node_unrecognized:
  "op nd \<notin> op_kinds \<Longrightarrow>
   exec_node rlog rank mdl inputs nd st =
     (case result st of None \<Rightarrow> Inl (UnboundLocalError ''result'')
      | Some r \<Rightarrow> Inr (st\<lparr>env := (env st)(name nd \<mapsto> r)\<rparr>))"
  by (simp add: exec_node_def op_kinds_def)

lemma exec_node_binds:
  "exec_node rlog rank mdl inputs nd st = Inr st' \<Longrightarrow>
     \<exists>r. result st' = Some r \<and> env st' = (env st)(name nd \<mapsto> r)"
  unfolding exec_node_def
  by (auto split: sum.splits option.splits if_splits
      dest: exec_placeholder_env exec_get_attr_env exec_call_function_env)


lemma load_arg_ok_refs:
  "(load_arg a e = Inr v \<longrightarrow> set (refs_of a) \<subseteq> dom e)"
  "(load_arg_seq as e = Inr vs \<longrightarrow> set (refs_of_seq as) \<subseteq> dom e)"
proof (induction a e and as e arbitrary: v and vs rule: load_arg_load_arg_seq.induct)
  case (2 n env)
  then show ?case by (simp split: option.splits add: domI)
next
  case (3 as env)
  then show ?case by (cases "load_arg_seq as env") auto
next
  case (4 as env)
  then show ?case by (cases "load_arg_seq as env") auto
next
  case (6 a as env)
  then show ?case
    by (cases "load_arg a env"; cases "load_arg_seq as env") auto
qed simp_all

lemma load_arg_err_refs:
  "(load_arg a e = Inl x \<longrightarrow> (\<exists>y. x = UnboundReference y \<and> y \<in> set (refs_of a) \<and> y \<notin> dom e))"
  "(load_arg_seq as e = Inl x \<longrightarrow> (\<exists>y. x = UnboundReference y \<and> y \<in> set (refs_of_seq as) \<and> y \<notin> dom e))"
proof (induction a e and as e arbitrary: x and x rule: load_arg_load_arg_seq.induct)
  case (2 n env)
  then show ?case by (simp split: option.splits add: domIff)
next
  case (3 as env)
  then show ?case by (cases "load_arg_seq as env") auto
next
  case (4 as env)
  then show ?case by (cases "load_arg_seq as env") auto
next
  case (6 a as env)
  then show ?case
  proof (cases "load_arg a env")
    case (Inl e)
    with 6 show ?thesis by auto
  next
    case (Inr b)
    with 6(2) [OF Inr] show ?thesis
      by (cases "load_arg_seq as env") auto
  qed
qed simp_all


lemma load_kwargs_ok_refs:
  "load_kwargs kas e = Inr kvs \<Longrightarrow> set (refs_of_kwargs kas) \<subseteq> dom e"
proof (induction kas e arbitrary: kvs rule: load_kwargs.induct)
  case (1 env)
  then show ?case by simp
next
  case (2 k a kas env)
  from "2.prems" obtain v kvs' where
    a: "load_arg a env = Inr v" and r: "load_kwargs kas env = Inr kvs'"
    by (auto split: sum.splits)
  from load_arg_ok_refs(1) [of a env v] a have "set (refs_of a) \<subseteq> dom env" by simp
  with "2.IH" [OF a r] show ?case by simp
qed

lemma load_kwargs_err_refs:
  "load_kwargs kas e = Inl x \<Longrightarrow>
     \<exists>y. x = UnboundReference y \<and> y \<in> set (refs_of_kwargs kas) \<and> y \<notin> dom e"
proof (induction kas e arbitrary: x rule: load_kwargs.induct)
  case (1 env)
  then show ?case by simp
next
  case (2 k a kas env)
  show ?case
  proof (cases "load_arg a env")
    case (Inl e)
    with "2.prems" have "x = e" by simp
    with load_arg_err_refs(1) [of a env e] Inl show ?thesis by auto
  next
    case (Inr v)
    with "2.prems" have "load_kwargs kas env = Inl x" by (auto split: sum.splits)
    from "2.IH" [OF Inr this] show ?thesis by auto
  qed
qed

lemma run_nodes_dom:
  "run_nodes rlog rank mdl inputs nds st = Inr st' \<Longrightarrow> dom (env st') = dom (env st) \<union> name ` set nds"
proof (induction nds arbitrary: st)
  case Nil
  then show ?case by simp
next
  case (Cons nd nds)
  from Cons.prems obtain st1 where
    s1: "exec_node rlog rank mdl inputs nd st = Inr st1" and
    s2: "run_nodes rlog rank mdl inputs nds st1 = Inr st'"
    by (auto split: sum.splits)
  from exec_node_binds [OF s1] have "dom (env st1) = insert (name nd) (dom (env st))" by auto
  with Cons.IH [OF s2] show ?case by auto
qed

lemma exec_call_unbound:
  assumes "op nd = ''call_function''" "x \<in> set (node_refs nd)" "x \<notin> dom (env st)"
  shows "\<exists>y. exec_node rlog rank mdl inputs nd st = Inl (UnboundReference y) \<and> y \<in> set (node_refs nd) \<and> y \<notin> dom (env st)"
proof (cases "load_arg_seq (args nd) (env st)")
  case (Inl e)
  with load_arg_err_refs(2) [of "args nd" "env st" e] obtain y where
    "e = UnboundReference y" "y \<in> set (refs_of_seq (args nd))" "y \<notin> dom (env st)" by auto
  with Inl assms(1) show ?thesis
    by (simp add: exec_node_def exec_call_function_def node_refs_def)
next
  case (Inr vs)
  with load_arg_ok_refs(2) [of "args nd" "env st" vs]
  have sub: "set (refs_of_seq (args nd)) \<subseteq> dom (env st)" by simp
  show ?thesis
  proof (cases "load_kwargs (kwargs nd) (env st)")
    case (Inl e)
    from load_kwargs_err_refs [OF Inl] obtain y where
      "e = UnboundReference y" "y \<in> set (refs_of_kwargs (kwargs nd))" "y \<notin> dom (env st)"
      by auto
    with Inl Inr assms(1) show ?thesis
      by (simp add: exec_node_def exec_call_function_def node_refs_def)
  next
    case (Inr kvs)
    from load_kwargs_ok_refs [OF Inr] sub assms(2,3) have False
      unfolding node_refs_def by auto
    then show ?thesis ..
  qed
qed

lemma log_results_failure:
  "map_sum id (\<lambda>_. ()) (log_results rlog1 rank1 nd i rs tr1) =
   map_sum id (\<lambda>_. ()) (log_results rlog2 rank2 nd i rs tr2)"
proof (induction rs arbitrary: i tr1 tr2)
  case Nil
  then show ?case by simp
next
  case (Cons r rs)
  show ?case
  proof (cases r)
    case (VDTensor gs ls sp d)
    then show ?thesis
      using Cons.IH by (cases "expected_spec nd i") (auto split: option.splits)
  qed (use Cons.IH in simp_all)
qed

lemma exec_placeholder_outcome:
  "env st1 = env st2 \<Longrightarrow>
   outcome (exec_placeholder rlog1 rank1 inputs nd st1) = outcome (exec_placeholder rlog2 rank2 inputs nd st2)"
  by (cases "shape_attr inputs") (simp_all add: outcome_def exec_placeholder_def)

lemma exec_get_attr_outcome:
  "env st1 = env st2 \<Longrightarrow>
   outcome (exec_get_attr rlog1 rank1 mdl inputs nd st1) = outcome (exec_get_attr rlog2 rank2 mdl inputs nd st2)"
  by (cases "fetch_attr mdl (target nd)"; cases "shape_attr inputs")
     (simp_all add: outcome_def exec_get_attr_def Let_def)

lemma exec_call_function_outcome:
  assumes "env st1 = env st2"
  shows "outcome (exec_call_function rlog1 rank1 nd st1) = outcome (exec_call_function rlog2 rank2 nd st2)"
proof (cases "load_arg_seq (args nd) (env st2)")
  case (Inl e)
  with assms show ?thesis by (simp add: outcome_def exec_call_function_def)
next
  case vs: (Inr vs)
  show ?thesis
  proof (cases "load_kwargs (kwargs nd) (env st2)")
    case (Inl e)
    with vs assms show ?thesis by (simp add: outcome_def exec_call_function_def)
  next
    case kvs: (Inr kvs)
    show ?thesis
    proof (cases "call_target (target nd) vs kvs")
      case (Inl e)
      with vs kvs assms show ?thesis by (simp add: outcome_def exec_call_function_def Let_def)
    next
      case (Inr r)
      let ?t1 = "log_args rlog1 rank1 0 vs (rlog1 rank1 (MsgRunning (name nd)) Info (trace st1))"
      let ?t2 = "log_args rlog2 rank2 0 vs (rlog2 rank2 (MsgRunning (name nd)) Info (trace st2))"
      from log_results_failure [of rlog1 rank1 nd 0 "rlist_of r" ?t1 rlog2 rank2 ?t2]
      show ?thesis
        using vs kvs Inr assms
        by (cases "log_results rlog1 rank1 nd 0 (rlist_of r) ?t1";
            cases "log_results rlog2 rank2 nd 0 (rlist_of r) ?t2")
           (simp_all add: outcome_def exec_call_function_def Let_def)
    qed
  qed
qed

lemma outcome_cases:
  "outcome r1 = outcome r2 \<Longrightarrow>
     (\<exists>e. r1 = Inl e \<and> r2 = Inl e) \<or>
     (\<exists>s1 s2. r1 = Inr s1 \<and> r2 = Inr s2 \<and> env s1 = env s2 \<and> result s1 = result s2)"
  by (cases r1; cases r2) (auto simp: outcome_def)

lemma exec_node_outcome:
  assumes "env st1 = env st2" "result st1 = result st2"
  shows "outcome (exec_node rlog1 rank1 mdl inputs nd st1) = outcome (exec_node rlog2 rank2 mdl inputs nd st2)"
proof -
  define b1 where "b1 =
    (if op nd = ''placeholder'' then exec_placeholder rlog1 rank1 inputs nd st1
     else if op nd = ''get_attr'' then exec_get_attr rlog1 rank1 mdl inputs nd st1
     else if op nd = ''call_function'' then exec_call_function rlog1 rank1 nd st1
     else Inr st1)"
  define b2 where "b2 =
    (if op nd = ''placeholder'' then exec_placeholder rlog2 rank2 inputs nd st2
     else if op nd = ''get_attr'' then exec_get_attr rlog2 rank2 mdl inputs nd st2
     else if op nd = ''call_function'' then exec_call_function rlog2 rank2 nd st2
     else Inr st2)"
  have "outcome b1 = outcome b2"
    unfolding b1_def b2_def
    using assms exec_placeholder_outcome [OF assms(1)] exec_get_attr_outcome [OF assms(1)]
      exec_call_function_outcome [OF assms(1)]
    by (simp add: outcome_def)
  from outcome_cases [OF this] have
    "outcome (case b1 of Inl e \<Rightarrow> Inl e
       | Inr st' \<Rightarrow> (case result st' of None \<Rightarrow> Inl (UnboundLocalError ''result'')
                      | Some r \<Rightarrow> Inr (st'\<lparr>env := (env st')(name nd \<mapsto> r)\<rparr>))) =
     outcome (case b2 of Inl e \<Rightarrow> Inl e
       | Inr st' \<Rightarrow> (case result st' of None \<Rightarrow> Inl (UnboundLocalError ''result'')
                      | Some r \<Rightarrow> Inr (st'\<lparr>env := (env st')(name nd \<mapsto> r)\<rparr>)))"
    by (auto simp: outcome_def split: option.splits)
  then show ?thesis
    unfolding exec_node_def b1_def b2_def .
qed

lemma run_nodes_outcome:
  "env st1 = env st2 \<Longrightarrow> result st1 = result st2 \<Longrightarrow>
   outcome (run_nodes rlog1 rank1 mdl inputs nds st1) = outcome (run_nodes rlog2 rank2 mdl inputs nds st2)"
proof (induction nds arbitrary: st1 st2)
  case Nil
  then show ?case by (simp add: outcome_def)
next
  case (Cons nd nds)
  from outcome_cases [OF exec_node_outcome [OF Cons.prems, of rlog1 rank1 mdl inputs nd rlog2 rank2]]
  show ?case
  proof
    assume "\<exists>e. exec_node rlog1 rank1 mdl inputs nd st1 = Inl e \<and> exec_node rlog2 rank2 mdl inputs nd st2 = Inl e"
    then show ?thesis by (auto simp: outcome_def)
  next
    assume "\<exists>s1 s2. exec_node rlog1 rank1 mdl inputs nd st1 = Inr s1 \<and>
              exec_node rlog2 rank2 mdl inputs nd st2 = Inr s2 \<and> env s1 = env s2 \<and> result s1 = result s2"
    then obtain s1 s2 where
      "exec_node rlog1 rank1 mdl inputs nd st1 = Inr s1"
      "exec_node rlog2 rank2 mdl inputs nd st2 = Inr s2" "env s1 = env s2" "result s1 = result s2"
      by blast
    with Cons.IH [of s1 s2] show ?thesis by simp
  qed
qed

text \<open>
  C8. Two runs of the interpreter on the same graph, model and input leave the same
  Environment (or raise the same exception), whatever the rank, the \<open>rlog\<close> function
  (its verbosity and its sink) and the trace written before: trace emission never
  affects the bound values, and the value the function returns does not depend on it
  either. The operations of the Call nodes are functions, hence deterministic.
\<close>

theorem interpreter_deterministic:
  "outcome (interpret_loop rlog1 rank1 mg inputs tr1) = outcome (interpret_loop rlog2 rank2 mg inputs tr2) \<and>
   map_sum id fst (node_interpreter rlog1 rank1 mg inputs tr1) =
   map_sum id fst (node_interpreter rlog2 rank2 mg inputs tr2)"
proof -
  have o: "outcome (interpret_loop rlog1 rank1 mg inputs tr1) = outcome (interpret_loop rlog2 rank2 mg inputs tr2)"
    unfolding interpret_loop_def by (rule run_nodes_outcome) (simp_all add: init_state_def)
  from outcome_cases [OF o] have
    "map_sum id fst (node_interpreter rlog1 rank1 mg inputs tr1) =
     map_sum id fst (node_interpreter rlog2 rank2 mg inputs tr2)"
    by (auto simp: node_interpreter_def)
  with o show ?thesis ..
qed

lemma run_unrecognized:
  "\<forall>u\<in>set us. op u \<notin> op_kinds \<Longrightarrow> result st = Some v \<Longrightarrow>
   \<exists>st'. run_nodes rlog rank mdl inputs us st = Inr st' \<and> result st' = Some v \<and> trace st' = trace st \<and>
     (\<forall>n. env st' n = (if n \<in> name ` set us then Some v else env st n))"
proof (induction us arbitrary: st)
  case Nil
  then show ?case by simp
next
  case (Cons u us)
  let ?st1 = "st\<lparr>env := (env st)(name u \<mapsto> v)\<rparr>"
  from Cons.prems have e: "exec_node rlog rank mdl inputs u st = Inr ?st1"
    by (simp add: exec_node_unrecognized)
  from Cons.prems have "\<forall>u\<in>set us. op u \<notin> op_kinds" "result ?st1 = Some v" by simp_all
  from Cons.IH [OF this] obtain st' where
    "run_nodes rlog rank mdl inputs us ?st1 = Inr st'" "result st' = Some v" "trace st' = trace ?st1"
    "\<forall>n. env st' n = (if n \<in> name ` set us then Some v else env ?st1 n)"
    by blast
  with e show ?case by auto
qed

lemma ex_run_x:
  "run_nodes rlog_rank0 0 VNone ex_input ([] @ [nd_x]) (init_state []) =
     Inr \<lparr>env = [''x'' \<mapsto> ex_input], result = Some ex_input,
          trace = [(Debug, MsgPlaceholder ''x'' TyTensor [2, 3])]\<rparr>"
  by (simp add: ex_defs interp_defs)

lemma run_nodes_fails_after:
  assumes "run_nodes rlog rank mdl inputs pre st0 = Inr st" "exec_node rlog rank mdl inputs nd st = Inl e"
  shows "run_nodes rlog rank mdl inputs (pre @ nd # post) st0 = Inl e"
  using assms by (simp add: run_nodes_append)

lemma run_nodes_keeps:
  "run_nodes rlog rank mdl inputs nds st = Inr st' \<Longrightarrow> n \<notin> name ` set nds \<Longrightarrow> env st' n = env st n"
proof (induction nds arbitrary: st)
  case Nil
  then show ?case by simp
next
  case (Cons nd nds)
  from Cons.prems(1) obtain st1 where
    s1: "exec_node rlog rank mdl inputs nd st = Inr st1" and
    s2: "run_nodes rlog rank mdl inputs nds st1 = Inr st'"
    by (auto split: sum.splits)
  from exec_node_binds [OF s1] Cons.prems(2) have "env st1 n = env st n" by auto
  with Cons.IH [OF s2] Cons.prems(2) show ?case by simp
qed

lemma run_nodes_last_binding:
  assumes "run_nodes rlog rank mdl inputs (pre @ [nd]) st0 = Inr st1"
  shows "result st1 \<noteq> None \<and> env st1 (name nd) = result st1"
proof -
  from assms obtain st where "exec_node rlog rank mdl inputs nd st = Inr st1"
    by (auto simp: run_nodes_append split: sum.splits)
  from exec_node_binds [OF this] show ?thesis by auto
qed

text \<open>
  C9. A node whose operation kind is none of \<open>placeholder\<close>, \<open>get_attr\<close> and
  \<open>call_function\<close> is never rejected. As the first node of the graph it makes the
  interpreter fail with an unbound-local-variable error on \<open>result\<close>. Later in the
  graph, after a recognized node \<open>k\<close> and any number of unrecognized nodes \<open>us\<close>, it does
  not fail: its name is bound to the value that \<open>k\<close>, the most recent recognized node,
  produced, and nothing is written to the trace.
\<close>

theorem unrecognized_op_kind:
  assumes "op nd \<notin> op_kinds"
  shows "(nodes mg = nd # rest \<longrightarrow>
            node_interpreter rlog rank mg inputs tr = Inl (UnboundLocalError ''result''))
       \<and> (op k \<in> op_kinds \<and> (\<forall>u\<in>set us. op u \<notin> op_kinds) \<and>
            run_nodes rlog rank mdl inputs (pre @ [k]) (init_state tr) = Inr st1 \<longrightarrow>
            (\<exists>v st2. env st1 (name k) = Some v \<and>
               run_nodes rlog rank mdl inputs (pre @ [k] @ us @ [nd]) (init_state tr) = Inr st2 \<and>
               env st2 (name nd) = Some v \<and> result st2 = Some v \<and> trace st2 = trace st1))"
proof
  show "nodes mg = nd # rest \<longrightarrow>
          node_interpreter rlog rank mg inputs tr = Inl (UnboundLocalError ''result'')"
    using assms
    by (simp add: node_interpreter_def interpret_loop_def init_state_def exec_node_unrecognized)
next
  show "op k \<in> op_kinds \<and> (\<forall>u\<in>set us. op u \<notin> op_kinds) \<and>
            run_nodes rlog rank mdl inputs (pre @ [k]) (init_state tr) = Inr st1 \<longrightarrow>
            (\<exists>v st2. env st1 (name k) = Some v \<and>
               run_nodes rlog rank mdl inputs (pre @ [k] @ us @ [nd]) (init_state tr) = Inr st2 \<and>
               env st2 (name nd) = Some v \<and> result st2 = Some v \<and> trace st2 = trace st1)"
  proof (intro impI, elim conjE)
    assume us: "\<forall>u\<in>set us. op u \<notin> op_kinds"
      and run: "run_nodes rlog rank mdl inputs (pre @ [k]) (init_state tr) = Inr st1"
    from run obtain st0 where
      "run_nodes rlog rank mdl inputs pre (init_state tr) = Inr st0"
      "exec_node rlog rank mdl inputs k st0 = Inr st1"
      by (auto simp: run_nodes_append split: sum.splits)
    from exec_node_binds [OF this(2)] obtain v where
      v: "result st1 = Some v" "env st1 (name k) = Some v" by auto
    from us assms have "\<forall>u\<in>set (us @ [nd]). op u \<notin> op_kinds" by simp
    from run_unrecognized [OF this v(1), of rlog rank mdl inputs] obtain st2 where
      "run_nodes rlog rank mdl inputs (us @ [nd]) st1 = Inr st2" "result st2 = Some v"
      "trace st2 = trace st1" "env st2 (name nd) = Some v"
      by auto
    with run v show "\<exists>v st2. env st1 (name k) = Some v \<and>
               run_nodes rlog rank mdl inputs (pre @ [k] @ us @ [nd]) (init_state tr) = Inr st2 \<and>
               env st2 (name nd) = Some v \<and> result st2 = Some v \<and> trace st2 = trace st1"
      using run_nodes_append [of rlog rank mdl inputs "pre @ [k]" "us @ [nd]" "init_state tr"]
      by auto
  qed
qed

text \<open>
  The instance of C9: \<open>nd_output\<close> first in the graph, and \<open>nd_output\<close> after the
  placeholder \<open>nd_x\<close>.
\<close>

theorem unrecognized_op_kind_witness:
  "node_interpreter rlog_rank0 0 \<lparr>nodes = [nd_output, nd_x], model = VNone\<rparr> ex_input [] =
     Inl (UnboundLocalError ''result'') \<and>
   (\<exists>st2. run_nodes rlog_rank0 0 VNone ex_input [nd_x, nd_output] (init_state []) = Inr st2 \<and>
      env st2 ''output'' = Some ex_input \<and> result st2 = Some ex_input \<and>
      trace st2 = [(Debug, MsgPlaceholder ''x'' TyTensor [2, 3])])"
proof -
  have h: "op nd_output \<notin> op_kinds" by (simp add: nd_output_def op_kinds_def)
  have k: "op nd_x \<in> op_kinds" by (simp add: nd_x_def op_kinds_def)
  note t = unrecognized_op_kind [OF h, of "\<lparr>nodes = [nd_output, nd_x], model = VNone\<rparr>" "[nd_x]"
      rlog_rank0 0 ex_input "[]" nd_x "[]" VNone "[]" 
      "\<lparr>env = [''x'' \<mapsto> ex_input], result = Some ex_input,
          trace = [(Debug, MsgPlaceholder ''x'' TyTensor [2, 3])]\<rparr>"]
  from t k ex_run_x show ?thesis
    by (simp add: nd_x_def nd_output_def)
qed

text \<open>
  C5, as amended. When the operation of a Call node raises, the interpreter fails with
  exactly the exception the operation raised: it is not wrapped and carries no node
  name.
\<close>

theorem call_exception_propagates_unwrapped:
  assumes "nodes mg = pre @ nd # post" "op nd = ''call_function''"
    and "run_nodes rlog rank (model mg) inputs pre (init_state tr) = Inr st"
    and "load_arg_seq (args nd) (env st) = Inr vs"
    and "load_kwargs (kwargs nd) (env st) = Inr kvs"
    and "call_target (target nd) vs kvs = Inl e"
  shows "node_interpreter rlog rank mg inputs tr = Inl e"
proof -
  from assms(2,4,5,6) have "exec_node rlog rank (model mg) inputs nd st = Inl e"
    by (simp add: exec_node_def exec_call_function_def)
  from run_nodes_fails_after [OF assms(3) this, of post] assms(1) show ?thesis
    by (simp add: node_interpreter_def interpret_loop_def)
qed

text \<open>
  The instance of C5: the node \<open>boom\<close> of \<open>ex_graph_boom\<close>.
\<close>

theorem call_exception_propagates_unwrapped_witness:
  "node_interpreter rlog_rank0 0 ex_graph_boom ex_input [] = Inl (RuntimeError ''boom'')"
proof -
  have 1: "nodes ex_graph_boom = [nd_x] @ nd_boom # [nd_dangling]" by (simp add: ex_graph_boom_def)
  have 2: "op nd_boom = ''call_function''" by (simp add: nd_boom_def)
  have 3: "run_nodes rlog_rank0 0 (model ex_graph_boom) ex_input [nd_x] (init_state []) =
     Inr \<lparr>env = [''x'' \<mapsto> ex_input], result = Some ex_input,
          trace = [(Debug, MsgPlaceholder ''x'' TyTensor [2, 3])]\<rparr>"
    by (simp add: ex_defs interp_defs)
  have 4: "load_arg_seq (args nd_boom) (env \<lparr>env = [''x'' \<mapsto> ex_input], result = Some ex_input,
          trace = [(Debug, MsgPlaceholder ''x'' TyTensor [2, 3])]\<rparr>) = Inr [ex_input]"
    by (simp add: nd_boom_def)
  have 5: "load_kwargs (kwargs nd_boom) (env \<lparr>env = [''x'' \<mapsto> ex_input], result = Some ex_input,
          trace = [(Debug, MsgPlaceholder ''x'' TyTensor [2, 3])]\<rparr>) = Inr []"
    by (simp add: nd_boom_def)
  have 6: "call_target (target nd_boom) [ex_input] [] = Inl (RuntimeError ''boom'')"
    by (simp add: nd_boom_def)
  from call_exception_propagates_unwrapped [OF 1 2 3 4 5 6] show ?thesis .
qed

text \<open>
  C5 as stated fails: the operation of \<open>nd_boom\<close> raises \<open>RuntimeError boom\<close>, and the
  interpreter fails with that very exception, not with an error that wraps it and names
  the node.
\<close>

theorem call_exception_raw_example:
  "node_interpreter rlog_rank0 0 ex_graph_boom ex_input [] = Inl (RuntimeError ''boom'') \<and>
   call_target (target nd_boom) [ex_input] [] = Inl (RuntimeError ''boom'')"
  by (simp add: ex_graph_boom_def ex_defs interp_defs)

text \<open>
  C4, as amended. A Call node binds the value its operation returns, a single value or a
  tuple or list of several outputs alike, as one value under the node's name; no other
  name of the Environment changes.
\<close>

theorem call_result_bound_under_node_name:
  assumes "op nd = ''call_function''" "exec_node rlog rank mdl inputs nd st = Inr st'"
  shows "\<exists>vs kvs r. load_arg_seq (args nd) (env st) = Inr vs \<and>
           load_kwargs (kwargs nd) (env st) = Inr kvs \<and>
           call_target (target nd) vs kvs = Inr r \<and>
           env st' = (env st)(name nd \<mapsto> r)"
proof -
  from assms obtain s where s: "exec_call_function rlog rank nd st = Inr s"
    and st': "st' = s\<lparr>env := (env s)(name nd \<mapsto> the (result s))\<rparr>" "result s \<noteq> None"
    by (auto simp: exec_node_def split: sum.splits option.splits)
  from exec_call_function_env [OF s] st' show ?thesis by auto
qed

text \<open>
  The instance of C4: the node \<open>split\<close>, whose operation returns two tensors.
\<close>

theorem call_result_bound_under_node_name_witness:
  "\<exists>vs kvs r. load_arg_seq (args nd_split) [''x'' \<mapsto> ex_input] = Inr vs \<and>
           load_kwargs (kwargs nd_split) [''x'' \<mapsto> ex_input] = Inr kvs \<and>
           call_target (target nd_split) vs kvs = Inr r \<and>
           [''x'' \<mapsto> ex_input, ''split'' \<mapsto> VTuple [VTensor [1, 3] [1, 2, 3], VTensor [1, 3] [4, 5, 6]]] =
             [''x'' \<mapsto> ex_input, ''split'' \<mapsto> r]"
proof -
  have 1: "op nd_split = ''call_function''" by (simp add: nd_split_def)
  have 2: "exec_node rlog_rank0 0 VNone ex_input nd_split
      \<lparr>env = [''x'' \<mapsto> ex_input], result = Some ex_input, trace = []\<rparr> =
      Inr \<lparr>env = [''x'' \<mapsto> ex_input, ''split'' \<mapsto> VTuple [VTensor [1, 3] [1, 2, 3], VTensor [1, 3] [4, 5, 6]]],
           result = Some (VTuple [VTensor [1, 3] [1, 2, 3], VTensor [1, 3] [4, 5, 6]]),
           trace = [(Info, MsgRunning ''split''), (Debug, MsgArgTensor 0 [2, 3]),
                    (Debug, MsgResTensor 0 [1, 3]), (Debug, MsgResTensor 1 [1, 3])]\<rparr>"
    by (simp add: ex_defs interp_defs)
  from call_result_bound_under_node_name [OF 1 2] show ?thesis by (simp add: nd_split_def)
qed

text \<open>
  C4 as stated fails: the operation of \<open>nd_split\<close> returns two outputs, and the
  Environment binds the names of the two nodes only, the pair as a whole under
  \<open>split\<close>; no output has a sub-name of its own.
\<close>

theorem multiple_outputs_bound_whole_example:
  "(case interpret_loop rlog_rank0 0 ex_graph_split ex_input [] of
      Inl e \<Rightarrow> False
    | Inr st \<Rightarrow> dom (env st) = {''x'', ''split''} \<and>
        env st ''split'' = Some (VTuple [VTensor [1, 3] [1, 2, 3], VTensor [1, 3] [4, 5, 6]]))"
  by (simp add: ex_graph_split_def ex_defs interp_defs insert_commute)

text \<open>
  C3, as amended. When the loop ends without an exception on a graph whose node names
  are distinct, the Environment it has built binds exactly the names of the nodes, each
  to the value of \<open>result\<close> at the end of that node's iteration (the value produced
  when the node was executed); the function then returns \<open>None\<close>, not the Environment.
\<close>

theorem environment_binds_every_node:
  assumes "interpret_loop rlog rank mg inputs tr = Inr st"
    and "distinct (map name (nodes mg))"
  shows "node_interpreter rlog rank mg inputs tr = Inr (VNone, trace st) \<and>
         dom (env st) = name ` set (nodes mg) \<and>
         (\<forall>i<length (nodes mg). \<exists>sti.
            run_nodes rlog rank (model mg) inputs (take (Suc i) (nodes mg)) (init_state tr) = Inr sti \<and>
            result sti \<noteq> None \<and> env st (name (nodes mg ! i)) = result sti)"
proof (intro conjI allI impI)
  from assms(1) show "node_interpreter rlog rank mg inputs tr = Inr (VNone, trace st)"
    by (simp add: node_interpreter_def)
next
  from run_nodes_dom [of rlog rank "model mg" inputs "nodes mg" "init_state tr" st] assms(1)
  show "dom (env st) = name ` set (nodes mg)"
    by (simp add: interpret_loop_def init_state_def)
next
  fix i assume i: "i < length (nodes mg)"
  let ?pre = "take (Suc i) (nodes mg)" and ?post = "drop (Suc i) (nodes mg)"
  have split: "nodes mg = ?pre @ ?post" by simp
  from assms(1) have "run_nodes rlog rank (model mg) inputs (?pre @ ?post) (init_state tr) = Inr st"
    by (simp add: interpret_loop_def)
  then obtain sti where
    p: "run_nodes rlog rank (model mg) inputs ?pre (init_state tr) = Inr sti" and
    q: "run_nodes rlog rank (model mg) inputs ?post sti = Inr st"
    unfolding run_nodes_append by (auto split: sum.splits)
  from i have pre: "?pre = take i (nodes mg) @ [nodes mg ! i]"
    by (simp add: take_Suc_conv_app_nth)
  from p pre run_nodes_last_binding [of rlog rank "model mg" inputs "take i (nodes mg)" "nodes mg ! i" "init_state tr" sti]
  have b: "result sti \<noteq> None" "env sti (name (nodes mg ! i)) = result sti" by simp_all
  from assms(2) i have "name (nodes mg ! i) \<notin> name ` set ?post"
  proof -
    have "distinct (map name ?pre @ map name ?post)"
      using assms(2) by (metis append_take_drop_id map_append)
    moreover have "name (nodes mg ! i) \<in> set (map name ?pre)"
      using pre by simp
    ultimately show ?thesis by auto
  qed
  from run_nodes_keeps [OF q this] b
  show "\<exists>sti. run_nodes rlog rank (model mg) inputs ?pre (init_state tr) = Inr sti \<and>
            result sti \<noteq> None \<and> env st (name (nodes mg ! i)) = result sti"
    using p by auto
qed

text \<open>
  The instance of C3: \<open>ex_graph_split\<close> and its second node.
\<close>

theorem environment_binds_every_node_witness:
  "node_interpreter rlog_rank0 0 ex_graph_split ex_input [] = Inr (VNone, trace ex_split_state) \<and>
   dom (env ex_split_state) = name ` set (nodes ex_graph_split) \<and>
   (\<exists>sti. run_nodes rlog_rank0 0 VNone ex_input [nd_x, nd_split] (init_state []) = Inr sti \<and>
      result sti \<noteq> None \<and> env ex_split_state ''split'' = result sti)"
proof -
  have 1: "interpret_loop rlog_rank0 0 ex_graph_split ex_input [] = Inr ex_split_state"
    by (simp add: ex_graph_split_def ex_split_state_def ex_defs interp_defs)
  have 2: "distinct (map name (nodes ex_graph_split))"
    by (simp add: ex_graph_split_def nd_x_def nd_split_def)
  note t = environment_binds_every_node [OF 1 2]
  from t have "\<forall>i<length (nodes ex_graph_split). \<exists>sti.
            run_nodes rlog_rank0 0 (model ex_graph_split) ex_input (take (Suc i) (nodes ex_graph_split)) (init_state []) = Inr sti \<and>
            result sti \<noteq> None \<and> env ex_split_state (name (nodes ex_graph_split ! i)) = result sti"
    by blast
  then have "1 < length (nodes ex_graph_split) \<longrightarrow> (\<exists>sti.
            run_nodes rlog_rank0 0 (model ex_graph_split) ex_input (take (Suc 1) (nodes ex_graph_split)) (init_state []) = Inr sti \<and>
            result sti \<noteq> None \<and> env ex_split_state (name (nodes ex_graph_split ! 1)) = result sti)"
    by blast
  then have "\<exists>sti. run_nodes rlog_rank0 0 VNone ex_input [nd_x, nd_split] (init_state []) = Inr sti \<and>
      result sti \<noteq> None \<and> env ex_split_state ''split'' = result sti"
    by (simp add: ex_graph_split_def nd_split_def)
  with t show ?thesis by blast
qed

text \<open>
  C3 as stated fails: on \<open>ex_graph_split\<close> the interpreter returns \<open>None\<close>.
\<close>

theorem returns_none_example:
  "map_sum id fst (node_interpreter rlog_rank0 0 ex_graph_split ex_input []) = Inr VNone"
  by (simp add: ex_graph_split_def ex_defs interp_defs)

text \<open>
  C2. On a graph with a Call node that refers to a name no earlier node has,
  interpretation never ends without an exception and never goes past that node. When
  the loop reaches the node, that is when the nodes before it execute without raising,
  executing the node fails with \<open>UnboundReference\<close> for an unresolved name of that node,
  and this is the exception of the interpreter. The loop can only miss the node by
  stopping before it, with the exception an earlier node raised.
\<close>

theorem unbound_reference_detected:
  assumes "nodes mg = pre @ nd # post" "op nd = ''call_function''"
    and "x \<in> set (node_refs nd)" "x \<notin> name ` set pre"
  shows "(\<exists>e. node_interpreter rlog rank mg inputs tr = Inl e) \<and>
         (\<forall>st. run_nodes rlog rank (model mg) inputs pre (init_state tr) = Inr st \<longrightarrow>
            (\<exists>y. y \<in> set (node_refs nd) \<and> y \<notin> name ` set pre \<and>
               exec_node rlog rank (model mg) inputs nd st = Inl (UnboundReference y) \<and>
               node_interpreter rlog rank mg inputs tr = Inl (UnboundReference y))) \<and>
         (\<forall>e. run_nodes rlog rank (model mg) inputs pre (init_state tr) = Inl e \<longrightarrow>
            node_interpreter rlog rank mg inputs tr = Inl e)"
proof -
  have reach: "\<exists>y. y \<in> set (node_refs nd) \<and> y \<notin> name ` set pre \<and>
               exec_node rlog rank (model mg) inputs nd st = Inl (UnboundReference y) \<and>
               node_interpreter rlog rank mg inputs tr = Inl (UnboundReference y)"
    if run: "run_nodes rlog rank (model mg) inputs pre (init_state tr) = Inr st" for st
  proof -
    from run_nodes_dom [OF run] have d: "dom (env st) = name ` set pre"
      by (simp add: init_state_def)
    with assms(4) have "x \<notin> dom (env st)" by simp
    from exec_call_unbound [OF assms(2,3) this, of rlog rank "model mg" inputs] obtain y where
      y: "exec_node rlog rank (model mg) inputs nd st = Inl (UnboundReference y)"
         "y \<in> set (node_refs nd)" "y \<notin> dom (env st)"
      by blast
    from run_nodes_fails_after [OF run y(1), of post] assms(1)
    have "node_interpreter rlog rank mg inputs tr = Inl (UnboundReference y)"
      by (simp add: node_interpreter_def interpret_loop_def)
    with y d show ?thesis by auto
  qed
  have early: "node_interpreter rlog rank mg inputs tr = Inl e"
    if "run_nodes rlog rank (model mg) inputs pre (init_state tr) = Inl e" for e
    using that assms(1) by (simp add: node_interpreter_def interpret_loop_def run_nodes_append)
  have "\<exists>e. node_interpreter rlog rank mg inputs tr = Inl e"
  proof (cases "run_nodes rlog rank (model mg) inputs pre (init_state tr)")
    case (Inl e)
    from early [OF this] show ?thesis by blast
  next
    case (Inr st)
    from reach [OF this] show ?thesis by blast
  qed
  with reach early show ?thesis by blast
qed

text \<open>
  The instance of C2: the node \<open>y\<close> of \<open>ex_graph_dangling\<close>, which refers to
  \<open>missing\<close>.
\<close>

theorem unbound_reference_detected_witness:
  "(\<exists>e. node_interpreter rlog_rank0 0 ex_graph_dangling ex_input [] = Inl e) \<and>
   (\<exists>y. y \<in> set (node_refs nd_dangling) \<and> y \<notin> name ` set [nd_x] \<and>
      node_interpreter rlog_rank0 0 ex_graph_dangling ex_input [] = Inl (UnboundReference y))"
proof -
  have 1: "nodes ex_graph_dangling = [nd_x] @ nd_dangling # [nd_split]"
    by (simp add: ex_graph_dangling_def)
  have 2: "op nd_dangling = ''call_function''" by (simp add: nd_dangling_def)
  have 3: "''missing'' \<in> set (node_refs nd_dangling)" by (simp add: node_refs_def nd_dangling_def)
  have 4: "''missing'' \<notin> name ` set [nd_x]" by (simp add: nd_x_def)
  have 5: "run_nodes rlog_rank0 0 (model ex_graph_dangling) ex_input [nd_x] (init_state []) =
     Inr \<lparr>env = [''x'' \<mapsto> ex_input], result = Some ex_input,
          trace = [(Debug, MsgPlaceholder ''x'' TyTensor [2, 3])]\<rparr>"
    by (simp add: ex_defs interp_defs)
  from unbound_reference_detected [OF 1 2 3 4, of rlog_rank0 0 ex_input "[]"] 5
  show ?thesis by blast
qed

section \<open>Properties of the device orchestrator\<close>

lemmas device_eval = device_defs step_defs tensor_sharding_map_def node_placements_def
  str_int_def str_nat_digit digit_char_def

lemma calls_sat_bind:
  assumes "calls_sat P m" "\<And>a. calls_sat P (f a)"
  shows "calls_sat P (step_bind m f)"
  unfolding calls_sat_def
proof
  fix w
  from assms(1) obtain cs where cs: "calls (snd (m w)) = calls w @ cs" "\<forall>c\<in>set cs. P c"
    unfolding calls_sat_def by blast
  show "\<exists>cs. calls (snd (step_bind m f w)) = calls w @ cs \<and> (\<forall>c\<in>set cs. P c)"
  proof (cases "m w")
    case (Pair r w1)
    show ?thesis
    proof (cases r)
      case (Inl e)
      with Pair cs show ?thesis by (auto simp: step_bind_def)
    next
      case (Inr a)
      from assms(2) [of a] obtain ds where
        "calls (snd (f a w1)) = calls w1 @ ds" "\<forall>c\<in>set ds. P c"
        unfolding calls_sat_def by blast
      with Pair Inr cs have "calls (snd (step_bind m f w)) = calls w @ (cs @ ds) \<and> (\<forall>c\<in>set (cs @ ds). P c)"
        by (auto simp: step_bind_def)
      then show ?thesis by blast
    qed
  qed
qed

lemma calls_sat_prims:
  "calls_sat P (setenv k v)"
  "calls_sat P (log_step rlog rank msg lvl)"
  "calls_sat P (step_of r)"
  "calls_sat P (step_return a)"
  "P c \<Longrightarrow> calls_sat P (call_ext c f)"
  "P c \<Longrightarrow> calls_sat P (call_proc c g)"
  by (simp_all add: calls_sat_def step_defs)

lemma calls_sat_if:
  "calls_sat P m \<Longrightarrow> calls_sat P n \<Longrightarrow> calls_sat P (if b then m else n)"
  by simp

lemma calls_sat_case_prod:
  "(\<And>a b. calls_sat P (f a b)) \<Longrightarrow> calls_sat P (case_prod f p)"
  by (cases p) simp

lemma env_kept_bind:
  assumes "env_kept m" "\<And>a. env_kept (f a)"
  shows "env_kept (step_bind m f)"
  unfolding env_kept_def
proof
  fix w
  from assms(1) have e: "environ (snd (m w)) = environ w" by (simp add: env_kept_def)
  show "environ (snd (step_bind m f w)) = environ w"
  proof (cases "m w")
    case (Pair r w1)
    with e assms(2) show ?thesis
      by (cases r) (auto simp: step_bind_def env_kept_def)
  qed
qed

lemma env_kept_prims:
  "env_kept (log_step rlog rank msg lvl)"
  "env_kept (step_of r)"
  "env_kept (step_return a)"
  "env_kept (call_ext c f)"
  "env_kept (call_proc c g)"
  by (simp_all add: env_kept_def step_defs)

lemma env_kept_if: "env_kept m \<Longrightarrow> env_kept n \<Longrightarrow> env_kept (if b then m else n)"
  by simp

lemma env_kept_case_prod: "(\<And>a b. env_kept (f a b)) \<Longrightarrow> env_kept (case_prod f p)"
  by (cases p) simp

lemma step_bind_assoc:
  "step_bind (step_bind m f) g = step_bind m (\<lambda>a. step_bind (f a) g)"
  by (rule ext) (auto simp: step_bind_def split: prod.splits sum.splits)

lemma calls_sat_invoke_repeat:
  "P (Invoke fn xs timed) \<Longrightarrow> calls_sat P (invoke_repeat X fn xs timed n)"
  by (induction n) (auto intro!: calls_sat_bind calls_sat_prims)

lemma env_kept_invoke_repeat: "env_kept (invoke_repeat X fn xs timed n)"
  by (induction n) (auto intro!: env_kept_bind env_kept_prims)

lemma calls_sat_timing:
  "P (Invoke fn xs False) \<Longrightarrow> P (Invoke fn xs True) \<Longrightarrow> (\<And>t. P (AllReduce t)) \<Longrightarrow>
   calls_sat P (distributed_average_timing X fn xs repeat warmup_iters)"
  unfolding distributed_average_timing_def
  by (intro calls_sat_bind calls_sat_prims calls_sat_invoke_repeat)

lemma env_kept_timing: "env_kept (distributed_average_timing X fn xs repeat warmup_iters)"
  unfolding distributed_average_timing_def
  by (intro env_kept_bind env_kept_prims env_kept_invoke_repeat)

lemma calls_sat_setup_environ: "calls_sat P (setup_environ rank)"
  unfolding setup_environ_def by (intro calls_sat_bind calls_sat_prims)

lemma calls_sat_initialize:
  "P (InitProcessGroup ''nccl'' rank ws) \<Longrightarrow> P (SetDevice ''cuda'' rank) \<Longrightarrow>
   calls_sat P (initialize X rank ws)"
  unfolding initialize_def by (intro calls_sat_bind calls_sat_prims)

lemma calls_sat_run_autosharding:
  "P (Randn [batch_size cargs, sequence_length cargs, hidden_size cfg]) \<Longrightarrow>
   (\<And>x. P (AutoshardingRunner mc cfg cargs x)) \<Longrightarrow>
   calls_sat P (run_autosharding X mc cfg cargs)"
  unfolding run_autosharding_def
  by (intro calls_sat_bind calls_sat_prims calls_sat_case_prod)

lemma calls_sat_distribute_parameters:
  "P (NewDeviceMesh ''cuda'' dm) \<Longrightarrow>
   (\<And>tsm. P (DistributeModule (model mg) (DeviceMesh ''cuda'' dm) rank tsm)) \<Longrightarrow>
   (\<And>c. P (PrintCode c)) \<Longrightarrow>
   calls_sat P (distribute_parameters X rlog rank dm mg po)"
  unfolding distribute_parameters_def
  by (intro calls_sat_bind calls_sat_prims calls_sat_case_prod calls_sat_if)

lemma calls_sat_shard_input:
  assumes "\<And>pl. input_sharding_loop (nodes mg) None = Inr (Some pl) \<Longrightarrow> P (DistributeTensor inputs mesh pl)"
  shows "calls_sat P (shard_input X rlog rank mg mesh inputs)"
  unfolding calls_sat_def
proof
  fix w
  show "\<exists>cs. calls (snd (shard_input X rlog rank mg mesh inputs w)) = calls w @ cs \<and> (\<forall>c\<in>set cs. P c)"
  proof (cases "input_sharding_loop (nodes mg) None")
    case (Inl e)
    then show ?thesis by (simp add: shard_input_def step_defs)
  next
    case (Inr found)
    show ?thesis
    proof (cases found)
      case None
      with Inr show ?thesis by (simp add: shard_input_def step_defs)
    next
      case (Some pl)
      with Inr assms have "P (DistributeTensor inputs mesh pl)" by simp
      with Inr Some show ?thesis by (simp add: shard_input_def step_defs)
    qed
  qed
qed

lemma calls_sat_forward_pass:
  "P (Invoke (model mg) [inputs] False) \<Longrightarrow> P (Invoke (model mg) [inputs] True) \<Longrightarrow>
   (\<And>t. P (AllReduce t)) \<Longrightarrow>
   calls_sat P (forward_pass X rlog rank mg inputs)"
  unfolding forward_pass_def
  by (intro calls_sat_bind calls_sat_prims calls_sat_case_prod calls_sat_timing)

lemma env_kept_phases:
  "env_kept (initialize X rank ws)"
  "env_kept (run_autosharding X mc cfg cargs)"
  "env_kept (distribute_parameters X rlog rank dm mg po)"
  "env_kept (shard_input X rlog rank mg mesh inputs)"
  "env_kept (forward_pass X rlog rank mg inputs)"
  unfolding initialize_def run_autosharding_def distribute_parameters_def shard_input_def
    forward_pass_def
  by (intro env_kept_bind env_kept_prims env_kept_case_prod env_kept_if env_kept_timing)+

lemma input_sharding_loop_none:
  "filter (\<lambda>nd. op nd = ''placeholder'') nds = [] \<Longrightarrow> input_sharding_loop nds acc = Inr acc"
  by (induction nds arbitrary: acc) (auto split: if_splits)

lemma input_sharding_loop_one:
  "filter (\<lambda>nd. op nd = ''placeholder'') nds = [p] \<Longrightarrow>
   input_sharding_loop nds acc =
     (case node_placements p of Inl e \<Rightarrow> Inl e | Inr pl \<Rightarrow> Inr (Some pl))"
proof (induction nds arbitrary: acc)
  case Nil
  then show ?case by simp
next
  case (Cons nd nds)
  show ?case
  proof (cases "op nd = ''placeholder''")
    case True
    with Cons.prems have "nd = p" "filter (\<lambda>nd. op nd = ''placeholder'') nds = []" by simp_all
    with True input_sharding_loop_none show ?thesis
      by (cases "node_placements p") simp_all
  next
    case False
    with Cons show ?thesis by simp
  qed
qed

lemma node_placements_Inr:
  "node_placements p = Inr pl \<Longrightarrow>
   \<exists>rs sp. results p = Some rs \<and> rs ''data_out_0'' = Some (Some sp) \<and> pl = placements sp"
  by (auto simp: node_placements_def split: option.splits)

lemma device_fn_first_call:
  "\<exists>ds. calls (snd (device_fn X rlog rank ws dm mc cfg cargs w)) =
         calls w @ InitProcessGroup ''nccl'' rank ws # ds"
proof -
  let ?w1 = "w\<lparr>environ := (environ w)(''MASTER_ADDR'' \<mapsto> ''localhost'',
      ''MASTER_PORT'' \<mapsto> ''12355'', ''RANK'' \<mapsto> str_int rank)\<rparr>"
  let ?init = "call_proc (InitProcessGroup ''nccl'' rank ws) (\<lambda>w. init_process_group X w ''nccl'' rank ws)"
  let ?tail = "step_bind (call_proc (SetDevice ''cuda'' rank) (\<lambda>w. set_device X w ''cuda'' rank)) (\<lambda>_.
     step_bind (run_autosharding X mc cfg cargs) (\<lambda>(inputs, mg, pass_outputs).
     step_bind (distribute_parameters X rlog rank dm mg pass_outputs) (\<lambda>(mesh, mg').
     step_bind (shard_input X rlog rank mg' mesh inputs) (\<lambda>dinputs.
     step_bind (forward_pass X rlog rank mg' dinputs) (\<lambda>_.
     call_proc DestroyProcessGroup (\<lambda>w. destroy_process_group X w))))))"
  have eq: "device_fn X rlog rank ws dm mc cfg cargs w = step_bind ?init (\<lambda>_. ?tail) ?w1"
    by (simp add: device_fn_def setup_environ_def initialize_def step_bind_assoc)
       (simp add: step_bind_def setenv_def)
  have t: "calls_sat (\<lambda>_. True) ?tail"
    by (intro calls_sat_bind calls_sat_prims calls_sat_case_prod calls_sat_run_autosharding
          calls_sat_distribute_parameters calls_sat_shard_input calls_sat_forward_pass) simp_all
  show ?thesis
  proof (cases "init_process_group X ?w1 ''nccl'' rank ws")
    case (Some e)
    then show ?thesis by (simp add: eq step_bind_def call_proc_def record_call_def)
  next
    case None
    let ?w2 = "record_call (InitProcessGroup ''nccl'' rank ws) ?w1"
    from None have "step_bind ?init (\<lambda>_. ?tail) ?w1 = ?tail ?w2"
      by (simp add: step_bind_def call_proc_def)
    moreover from t obtain ds where "calls (snd (?tail ?w2)) = calls ?w2 @ ds"
      unfolding calls_sat_def by blast
    ultimately show ?thesis by (simp add: eq record_call_def)
  qed
qed

lemma env_kept_tail:
  "env_kept (step_bind (initialize X rank ws) (\<lambda>_.
     step_bind (run_autosharding X mc cfg cargs) (\<lambda>(inputs, mg, pass_outputs).
     step_bind (distribute_parameters X rlog rank dm mg pass_outputs) (\<lambda>(mesh, mg').
     step_bind (shard_input X rlog rank mg' mesh inputs) (\<lambda>dinputs.
     step_bind (forward_pass X rlog rank mg' dinputs) (\<lambda>_.
     call_proc DestroyProcessGroup (\<lambda>w. destroy_process_group X w)))))))"
  by (intro env_kept_bind env_kept_prims env_kept_case_prod env_kept_phases)

text \<open>
  C10. Whatever the rank, the arguments and the environment before the call, \<open>device_fn\<close>
  sets \<open>MASTER_ADDR\<close> to \<open>localhost\<close> and \<open>MASTER_PORT\<close> to \<open>12355\<close> (and \<open>RANK\<close> to the
  rank) before anything else; joining the process group is its first call, made in the
  world with these values, so that an exception of the join is the exception of
  \<open>device_fn\<close>; and the values are still there when \<open>device_fn\<close> ends. The address is a
  constant of the function, not one of its parameters.
\<close>

theorem rendezvous_address_fixed:
  "environ (snd (device_fn X rlog rank ws dm mc cfg cargs w)) =
     (environ w)(''MASTER_ADDR'' \<mapsto> ''localhost'', ''MASTER_PORT'' \<mapsto> ''12355'',
                 ''RANK'' \<mapsto> str_int rank) \<and>
   environ (snd (device_fn X rlog rank ws dm mc cfg cargs w)) ''MASTER_ADDR'' = Some ''localhost'' \<and>
   environ (snd (device_fn X rlog rank ws dm mc cfg cargs w)) ''MASTER_PORT'' = Some ''12355'' \<and>
   (\<exists>ds. calls (snd (device_fn X rlog rank ws dm mc cfg cargs w)) =
          calls w @ InitProcessGroup ''nccl'' rank ws # ds) \<and>
   (init_process_group X
      (w\<lparr>environ := (environ w)(''MASTER_ADDR'' \<mapsto> ''localhost'', ''MASTER_PORT'' \<mapsto> ''12355'',
                                  ''RANK'' \<mapsto> str_int rank)\<rparr>) ''nccl'' rank ws = Some e \<longrightarrow>
    fst (device_fn X rlog rank ws dm mc cfg cargs w) = Inl e)"
proof -
  let ?w1 = "w\<lparr>environ := (environ w)(''MASTER_ADDR'' \<mapsto> ''localhost'',
      ''MASTER_PORT'' \<mapsto> ''12355'', ''RANK'' \<mapsto> str_int rank)\<rparr>"
  let ?tail = "step_bind (initialize X rank ws) (\<lambda>_.
     step_bind (run_autosharding X mc cfg cargs) (\<lambda>(inputs, mg, pass_outputs).
     step_bind (distribute_parameters X rlog rank dm mg pass_outputs) (\<lambda>(mesh, mg').
     step_bind (shard_input X rlog rank mg' mesh inputs) (\<lambda>dinputs.
     step_bind (forward_pass X rlog rank mg' dinputs) (\<lambda>_.
     call_proc DestroyProcessGroup (\<lambda>w. destroy_process_group X w))))))"
  have eq: "device_fn X rlog rank ws dm mc cfg cargs w = ?tail ?w1"
    by (simp add: device_fn_def setup_environ_def) (simp add: step_bind_def setenv_def)
  from env_kept_tail [of X rank ws mc cfg cargs rlog dm] have
    e: "environ (snd (device_fn X rlog rank ws dm mc cfg cargs w)) = environ ?w1"
    unfolding eq env_kept_def by blast
  have f: "init_process_group X ?w1 ''nccl'' rank ws = Some e \<longrightarrow>
    fst (device_fn X rlog rank ws dm mc cfg cargs w) = Inl e"
    unfolding eq by (simp add: initialize_def step_bind_def call_proc_def)
  from e f device_fn_first_call [of X rlog rank ws dm mc cfg cargs w] show ?thesis
    by simp
qed

text \<open>
  The instance of C10: rank 3 of 4, started with another address in the environment, and
  a rendezvous that times out at \<open>localhost:12355\<close>.
\<close>

theorem rendezvous_address_fixed_witness:
  "fst (device_fn ex_externals_no_rendezvous rlog_rank0 3 4 (VList [VInt 0, VInt 1, VInt 2, VInt 3])
      ''GPT2'' ex_config ex_cli_args
      \<lparr>environ = [''MASTER_ADDR'' \<mapsto> ''10.0.0.7'', ''MASTER_PORT'' \<mapsto> ''29500''], calls = [], log = []\<rparr>) =
     Inl (RuntimeError ''rendezvous timed out'')"
proof -
  note t = rendezvous_address_fixed [of ex_externals_no_rendezvous rlog_rank0 3 4
      "VList [VInt 0, VInt 1, VInt 2, VInt 3]" "''GPT2''" ex_config ex_cli_args
      "\<lparr>environ = [''MASTER_ADDR'' \<mapsto> ''10.0.0.7'', ''MASTER_PORT'' \<mapsto> ''29500''], calls = [], log = []\<rparr>"
      "RuntimeError ''rendezvous timed out''"]
  have "init_process_group ex_externals_no_rendezvous
      (\<lparr>environ = [''MASTER_ADDR'' \<mapsto> ''10.0.0.7'', ''MASTER_PORT'' \<mapsto> ''29500''], calls = [], log = []\<rparr>
        \<lparr>environ := (environ \<lparr>environ = [''MASTER_ADDR'' \<mapsto> ''10.0.0.7'', ''MASTER_PORT'' \<mapsto> ''29500''],
             calls = [], log = []\<rparr>)
           (''MASTER_ADDR'' \<mapsto> ''localhost'', ''MASTER_PORT'' \<mapsto> ''12355'', ''RANK'' \<mapsto> str_int 3)\<rparr>)
      ''nccl'' 3 4 = Some (RuntimeError ''rendezvous timed out'')"
    by (simp add: ex_externals_no_rendezvous_def ex_externals_def)
  with t show ?thesis by blast
qed

lemma step_bind_return: "step_bind (step_return a) f = f a"
  by (rule ext) (simp add: step_bind_def step_return_def)

lemma step_bind_case_prod:
  "step_bind (case p of (a, b) \<Rightarrow> f a b) g = (case p of (a, b) \<Rightarrow> step_bind (f a b) g)"
  by (cases p) simp

lemma device_fn_before_release:
  "device_fn X rlog rank ws dm mc cfg cargs =
     step_bind (before_release X rlog rank ws dm mc cfg cargs)
       (\<lambda>_. call_proc DestroyProcessGroup (\<lambda>w. destroy_process_group X w))"
  by (simp add: device_fn_def before_release_def step_bind_assoc step_bind_case_prod)

lemma before_release_no_release:
  "calls_sat (\<lambda>c. c \<noteq> DestroyProcessGroup) (before_release X rlog rank ws dm mc cfg cargs)"
  unfolding before_release_def
  by (intro calls_sat_bind calls_sat_case_prod calls_sat_setup_environ calls_sat_initialize
        calls_sat_run_autosharding calls_sat_distribute_parameters calls_sat_shard_input
        calls_sat_forward_pass) simp_all

lemma run_autosharding_Inr:
  assumes "run_autosharding X mc cfg cargs w = (Inr (inputs, mg, po), w')"
  shows "randn X w [batch_size cargs, sequence_length cargs, hidden_size cfg] = Inr inputs \<and>
         autosharding_runner X
           (record_call (Randn [batch_size cargs, sequence_length cargs, hidden_size cfg]) w)
           mc cfg cargs inputs = Inr (mg, po) \<and>
         w' = record_call (AutoshardingRunner mc cfg cargs inputs)
                (record_call (Randn [batch_size cargs, sequence_length cargs, hidden_size cfg]) w)"
  using assms
  by (auto simp: run_autosharding_def step_bind_def step_return_def call_ext_def
      split: sum.splits prod.splits)

lemma distribute_parameters_Inr:
  assumes "distribute_parameters X rlog rank dm mg po w = (Inr (mesh, mg'), w')"
  shows "mesh = DeviceMesh ''cuda'' dm \<and> nodes mg' = nodes mg \<and>
         (\<exists>tsm t. tensor_sharding_map po = Inr tsm \<and>
            distribute_module X
              (logged rlog rank MsgDistributing Info (record_call (NewDeviceMesh ''cuda'' dm) w))
              (model mg) (DeviceMesh ''cuda'' dm) rank tsm = Inr (model mg', t))"
  using assms
  by (auto simp: distribute_parameters_def step_bind_def step_return_def step_of_def
      call_ext_def call_proc_def log_step_def logged_def
      split: sum.splits prod.splits option.splits if_splits)

lemma shard_input_one:
  assumes "filter (\<lambda>nd. op nd = ''placeholder'') (nodes mg) = [inp]"
    and "results inp = Some rs" "rs ''data_out_0'' = Some (Some sp)"
  shows "shard_input X rlog rank mg mesh inputs w =
           (distribute_tensor X (input_world rlog rank (placements sp) w) inputs mesh (placements sp),
            record_call (DistributeTensor inputs mesh (placements sp))
              (input_world rlog rank (placements sp) w))"
proof -
  from assms(2,3) have "node_placements inp = Inr (placements sp)"
    by (simp add: node_placements_def)
  with input_sharding_loop_one [OF assms(1), of None]
  have "input_sharding_loop (nodes mg) None = Inr (Some (placements sp))" by simp
  then show ?thesis
    by (simp add: shard_input_def step_bind_def step_of_def log_step_def call_ext_def
        input_world_def logged_def)
qed

lemma shard_input_Inr:
  assumes "shard_input X rlog rank mg mesh inputs w = (Inr dinputs, w')"
  shows "\<exists>pl. input_sharding_loop (nodes mg) None = Inr (Some pl) \<and>
           distribute_tensor X (input_world rlog rank pl w) inputs mesh pl = Inr dinputs \<and>
           w' = record_call (DistributeTensor inputs mesh pl) (input_world rlog rank pl w)"
  using assms
  by (auto simp: shard_input_def step_bind_def step_of_def log_step_def call_ext_def
      input_world_def logged_def split: sum.splits option.splits)

lemma invoke_repeat_Inr:
  "invoke_repeat X fn xs timed n w = (Inr rs, w') \<Longrightarrow>
     length rs = n \<and>
     w' = w\<lparr>calls := calls w @ replicate n (Invoke fn xs timed)\<rparr> \<and>
     (\<forall>i<n. invoke X (w\<lparr>calls := calls w @ replicate i (Invoke fn xs timed)\<rparr>) fn xs = Inr (rs ! i))"
proof (induction n arbitrary: w rs w')
  case 0
  then show ?case by (simp add: step_return_def)
next
  case (Suc n)
  let ?ev = "Invoke fn xs timed"
  from Suc.prems obtain r rs' where
    r: "invoke X w fn xs = Inr r" and
    rest: "invoke_repeat X fn xs timed n (record_call ?ev w) = (Inr rs', w')" and
    rs: "rs = r # rs'"
    by (auto simp: step_bind_def step_return_def call_ext_def split: sum.splits prod.splits)
  from Suc.IH [OF rest] have
    l: "length rs' = n" and
    w': "w' = (record_call ?ev w)\<lparr>calls := calls (record_call ?ev w) @ replicate n ?ev\<rparr>" and
    i: "\<forall>i<n. invoke X ((record_call ?ev w)\<lparr>calls := calls (record_call ?ev w) @ replicate i ?ev\<rparr>) fn xs =
          Inr (rs' ! i)"
    by blast+
  have idx: "invoke X (w\<lparr>calls := calls w @ replicate i ?ev\<rparr>) fn xs = Inr (rs ! i)" if "i < Suc n" for i
  proof (cases i)
    case 0
    with r rs show ?thesis by simp
  next
    case (Suc j)
    with that i have "invoke X ((record_call ?ev w)\<lparr>calls := calls (record_call ?ev w) @ replicate j ?ev\<rparr>) fn xs =
          Inr (rs' ! j)" by simp
    with Suc rs show ?thesis by (simp add: record_call_def)
  qed
  from l rs w' idx show ?case by (simp add: record_call_def)
qed

lemma forward_pass_Inr:
  assumes "forward_pass X rlog rank mg inputs w = (Inr u, w')"
  shows "\<exists>rs total. length rs = 4 \<and>
     calls w' = calls w @ replicate 2 (Invoke (model mg) [inputs] False) @
                replicate 4 (Invoke (model mg) [inputs] True) @
                [AllReduce (aggregate X (map snd rs))] \<and>
     (\<forall>i<4. invoke X (w\<lparr>calls := calls w @ replicate 2 (Invoke (model mg) [inputs] False) @
                                   replicate i (Invoke (model mg) [inputs] True)\<rparr>)
               (model mg) [inputs] = Inr (rs ! i)) \<and>
     all_reduce X (w\<lparr>calls := calls w @ replicate 2 (Invoke (model mg) [inputs] False) @
                                replicate 4 (Invoke (model mg) [inputs] True)\<rparr>)
       (aggregate X (map snd rs)) = Inr total \<and>
     log w' = rlog rank (MsgForwardFinished total) Info (log w) \<and>
     environ w' = environ w"
proof -
  let ?m = "model mg"
  from assms obtain ws wa rs wb total where
    warm: "invoke_repeat X ?m [inputs] False 2 w = (Inr ws, wa)" and
    timed: "invoke_repeat X ?m [inputs] True 4 wa = (Inr rs, wb)" and
    red: "all_reduce X wb (aggregate X (map snd rs)) = Inr total" and
    w': "w' = (record_call (AllReduce (aggregate X (map snd rs))) wb)
               \<lparr>log := rlog rank (MsgForwardFinished total) Info (log wb)\<rparr>"
    by (auto simp: forward_pass_def distributed_average_timing_def step_bind_def step_return_def
        call_ext_def log_step_def record_call_def split: sum.splits prod.splits)
  from invoke_repeat_Inr [OF warm] have wa: "wa = w\<lparr>calls := calls w @ replicate 2 (Invoke ?m [inputs] False)\<rparr>"
    by blast
  from invoke_repeat_Inr [OF timed] have
    l: "length rs = 4" and
    wb: "wb = wa\<lparr>calls := calls wa @ replicate 4 (Invoke ?m [inputs] True)\<rparr>" and
    i: "\<forall>i<4. invoke X (wa\<lparr>calls := calls wa @ replicate i (Invoke ?m [inputs] True)\<rparr>) ?m [inputs] = Inr (rs ! i)"
    by blast+
  from l wa wb i red w' have
    "length rs = 4 \<and>
     calls w' = calls w @ replicate 2 (Invoke ?m [inputs] False) @
                replicate 4 (Invoke ?m [inputs] True) @
                [AllReduce (aggregate X (map snd rs))] \<and>
     (\<forall>i<4. invoke X (w\<lparr>calls := calls w @ replicate 2 (Invoke ?m [inputs] False) @
                                   replicate i (Invoke ?m [inputs] True)\<rparr>)
               ?m [inputs] = Inr (rs ! i)) \<and>
     all_reduce X (w\<lparr>calls := calls w @ replicate 2 (Invoke ?m [inputs] False) @
                                replicate 4 (Invoke ?m [inputs] True)\<rparr>)
       (aggregate X (map snd rs)) = Inr total \<and>
     log w' = rlog rank (MsgForwardFinished total) Info (log w) \<and>
     environ w' = environ w"
    by (simp add: record_call_def)
  then show ?thesis by blast
qed

lemmas run_eval = ex_device_defs device_eval eval_nat_numeral

lemma ex_before_release:
  "before_release ex_externals rlog_rank0 0 1 (VList [VInt 0]) ''GPT2'' ex_config ex_cli_args ex_world =
     (Inr (), \<lparr>environ = ex_environ, calls = ex_calls,
               log = ex_log_input @ [(Info, MsgForwardFinished 21)]\<rparr>)"
  by (simp add: run_eval)

lemma ex_run_ok:
  "device_fn ex_externals rlog_rank0 0 1 (VList [VInt 0]) ''GPT2'' ex_config ex_cli_args ex_world =
     (Inr (), \<lparr>environ = ex_environ, calls = ex_calls @ [DestroyProcessGroup],
               log = ex_log_input @ [(Info, MsgForwardFinished 21)]\<rparr>)"
  by (simp add: run_eval)

lemma ex_run_fail:
  "device_fn ex_externals_failing rlog_rank0 0 1 (VList [VInt 0]) ''GPT2'' ex_config ex_cli_args ex_world =
     (Inl (RuntimeError ''forward pass failed''),
      \<lparr>environ = ex_environ, calls = ex_calls_input @ [Invoke ex_model [ex_dinput] False],
       log = ex_log_input\<rparr>)"
  by (simp add: run_eval)

lemma ex_phases:
  "setup_environ 0 ex_world = (Inr (), ex_world_env)"
  "initialize ex_externals 0 1 ex_world_env = (Inr (), ex_world_joined)"
  "run_autosharding ex_externals ''GPT2'' ex_config ex_cli_args ex_world_joined =
     (Inr (VTensor [2, 1, 3] [1, 2, 3, 4, 5, 6], ex_mg, ex_pass_outputs), ex_world_planned)"
  "distribute_parameters ex_externals rlog_rank0 0 (VList [VInt 0]) ex_mg ex_pass_outputs ex_world_planned =
     (Inr (DeviceMesh ''cuda'' (VList [VInt 0]), ex_mg), ex_world_materialized)"
  "shard_input ex_externals rlog_rank0 0 ex_mg (DeviceMesh ''cuda'' (VList [VInt 0]))
      (VTensor [2, 1, 3] [1, 2, 3, 4, 5, 6]) ex_world_materialized = (Inr ex_dinput, ex_world_input)"
  "forward_pass ex_externals rlog_rank0 0 ex_mg ex_dinput ex_world_input = (Inr (), ex_world_executed)"
  by (simp_all add: run_eval ex_world_defs)

text \<open>
  C1, as amended. \<open>device_fn\<close> releases the process group in its last statement and
  nowhere else. The statements before it (lines 146 to 211) never call the release. When
  one of them raises, the exception is the outcome of \<open>device_fn\<close>, in the world that
  statement left, and the process group has not been released; this is the case of the
  timed forward passes raising after the statements before them have succeeded. When
  all of them succeed, the release is called in the world they leave, exactly once and as
  the last call, and the outcome of the release is the outcome of \<open>device_fn\<close>.
\<close>

theorem process_group_release:
  "(\<exists>cs. calls (snd (before_release X rlog rank ws dm mc cfg cargs w)) = calls w @ cs \<and>
         DestroyProcessGroup \<notin> set cs) \<and>
   (before_release X rlog rank ws dm mc cfg cargs w = (Inl e, w') \<longrightarrow>
      device_fn X rlog rank ws dm mc cfg cargs w = (Inl e, w') \<and>
      count_list (drop (length (calls w)) (calls w')) DestroyProcessGroup = 0) \<and>
   (before_release X rlog rank ws dm mc cfg cargs w = (Inr (), w') \<longrightarrow>
      device_fn X rlog rank ws dm mc cfg cargs w =
        ((case destroy_process_group X w' of None \<Rightarrow> Inr () | Some e' \<Rightarrow> Inl e'),
         w'\<lparr>calls := calls w' @ [DestroyProcessGroup]\<rparr>) \<and>
      count_list (drop (length (calls w)) (calls w' @ [DestroyProcessGroup])) DestroyProcessGroup = 1) \<and>
   (setup_environ rank w = (Inr (), w1) \<and>
    initialize X rank ws w1 = (Inr (), w2) \<and>
    run_autosharding X mc cfg cargs w2 = (Inr (inputs, mg, po), w3) \<and>
    distribute_parameters X rlog rank dm mg po w3 = (Inr (mesh, mg'), w4) \<and>
    shard_input X rlog rank mg' mesh inputs w4 = (Inr dinputs, w5) \<and>
    forward_pass X rlog rank mg' dinputs w5 = (Inl e, w6) \<longrightarrow>
      before_release X rlog rank ws dm mc cfg cargs w = (Inl e, w6))"
proof -
  let ?b = "before_release X rlog rank ws dm mc cfg cargs"
  from before_release_no_release [of X rlog rank ws dm mc cfg cargs] obtain cs where
    cs: "calls (snd (?b w)) = calls w @ cs" "DestroyProcessGroup \<notin> set cs"
    unfolding calls_sat_def by blast
  then have z: "count_list cs DestroyProcessGroup = 0" by (simp add: count_list_0_iff)
  have 1: "\<exists>cs. calls (snd (?b w)) = calls w @ cs \<and> DestroyProcessGroup \<notin> set cs"
    using cs by blast
  have 2: "?b w = (Inl e, w') \<longrightarrow>
      device_fn X rlog rank ws dm mc cfg cargs w = (Inl e, w') \<and>
      count_list (drop (length (calls w)) (calls w')) DestroyProcessGroup = 0"
    using cs z by (auto simp: device_fn_before_release step_bind_def)
  have 3: "?b w = (Inr (), w') \<longrightarrow>
      device_fn X rlog rank ws dm mc cfg cargs w =
        ((case destroy_process_group X w' of None \<Rightarrow> Inr () | Some e' \<Rightarrow> Inl e'),
         w'\<lparr>calls := calls w' @ [DestroyProcessGroup]\<rparr>) \<and>
      count_list (drop (length (calls w)) (calls w' @ [DestroyProcessGroup])) DestroyProcessGroup = 1"
    using cs z by (auto simp: device_fn_before_release step_bind_def call_proc_def record_call_def)
  have 4: "setup_environ rank w = (Inr (), w1) \<and>
    initialize X rank ws w1 = (Inr (), w2) \<and>
    run_autosharding X mc cfg cargs w2 = (Inr (inputs, mg, po), w3) \<and>
    distribute_parameters X rlog rank dm mg po w3 = (Inr (mesh, mg'), w4) \<and>
    shard_input X rlog rank mg' mesh inputs w4 = (Inr dinputs, w5) \<and>
    forward_pass X rlog rank mg' dinputs w5 = (Inl e, w6) \<longrightarrow> ?b w = (Inl e, w6)"
    by (simp add: before_release_def step_bind_def)
  from 1 2 3 4 show ?thesis by blast
qed

text \<open>
  The instances of C1: the run in which every imported function succeeds, which ends
  with the release, and the run whose forward pass raises, where that exception is the
  outcome of \<open>device_fn\<close> and the process group is not released.
\<close>

theorem process_group_release_witness:
  "device_fn ex_externals rlog_rank0 0 1 (VList [VInt 0]) ''GPT2'' ex_config ex_cli_args ex_world =
     (Inr (), \<lparr>environ = ex_environ, calls = ex_calls @ [DestroyProcessGroup],
               log = ex_log_input @ [(Info, MsgForwardFinished 21)]\<rparr>) \<and>
   count_list (ex_calls @ [DestroyProcessGroup]) DestroyProcessGroup = 1 \<and>
   before_release ex_externals_failing rlog_rank0 0 1 (VList [VInt 0]) ''GPT2'' ex_config ex_cli_args ex_world =
     (Inl (RuntimeError ''forward pass failed''),
      \<lparr>environ = ex_environ, calls = ex_calls_input @ [Invoke ex_model [ex_dinput] False],
       log = ex_log_input\<rparr>) \<and>
   device_fn ex_externals_failing rlog_rank0 0 1 (VList [VInt 0]) ''GPT2'' ex_config ex_cli_args ex_world =
     (Inl (RuntimeError ''forward pass failed''),
      \<lparr>environ = ex_environ, calls = ex_calls_input @ [Invoke ex_model [ex_dinput] False],
       log = ex_log_input\<rparr>) \<and>
   count_list (ex_calls_input @ [Invoke ex_model [ex_dinput] False]) DestroyProcessGroup = 0"
proof -
  let ?wf = "\<lparr>environ = ex_environ, calls = ex_calls_input @ [Invoke ex_model [ex_dinput] False],
       log = ex_log_input\<rparr>"
  let ?w5 = "\<lparr>environ = ex_environ, calls = ex_calls_input, log = ex_log_input\<rparr>"
  let ?w4 = "\<lparr>environ = ex_environ, calls = butlast ex_calls_input,
       log = [(Info, MsgDistributing), (Info, MsgDistributionDone 7)]\<rparr>"
  let ?w3 = "\<lparr>environ = ex_environ, calls = take 4 ex_calls_input, log = []\<rparr>"
  let ?w2 = "\<lparr>environ = ex_environ, calls = take 2 ex_calls_input, log = []\<rparr>"
  let ?w1 = "\<lparr>environ = ex_environ, calls = [], log = []\<rparr>"
  have ok: "before_release ex_externals rlog_rank0 0 1 (VList [VInt 0]) ''GPT2'' ex_config ex_cli_args ex_world =
     (Inr (), \<lparr>environ = ex_environ, calls = ex_calls,
               log = ex_log_input @ [(Info, MsgForwardFinished 21)]\<rparr>)"
    by (rule ex_before_release)
  note success = process_group_release [of ex_externals rlog_rank0 0 1 "VList [VInt 0]" "''GPT2''"
      ex_config ex_cli_args ex_world "RuntimeError ''forward pass failed''"
      "\<lparr>environ = ex_environ, calls = ex_calls, log = ex_log_input @ [(Info, MsgForwardFinished 21)]\<rparr>"]
  from success ok have a:
    "device_fn ex_externals rlog_rank0 0 1 (VList [VInt 0]) ''GPT2'' ex_config ex_cli_args ex_world =
     (Inr (), \<lparr>environ = ex_environ, calls = ex_calls @ [DestroyProcessGroup],
               log = ex_log_input @ [(Info, MsgForwardFinished 21)]\<rparr>) \<and>
     count_list (ex_calls @ [DestroyProcessGroup]) DestroyProcessGroup = 1"
    by (simp add: ex_externals_def ex_world_def)
  have s: "setup_environ 0 ex_world = (Inr (), ?w1)"
    by (simp add: run_eval)
  have j: "initialize ex_externals_failing 0 1 ?w1 = (Inr (), ?w2)"
    by (simp add: run_eval)
  have p: "run_autosharding ex_externals_failing ''GPT2'' ex_config ex_cli_args ?w2 =
     (Inr (VTensor [2, 1, 3] [1, 2, 3, 4, 5, 6], ex_mg, ex_pass_outputs), ?w3)"
    by (simp add: run_eval)
  have m: "distribute_parameters ex_externals_failing rlog_rank0 0 (VList [VInt 0]) ex_mg ex_pass_outputs ?w3 =
     (Inr (DeviceMesh ''cuda'' (VList [VInt 0]), ex_mg), ?w4)"
    by (simp add: run_eval)
  have d: "shard_input ex_externals_failing rlog_rank0 0 ex_mg (DeviceMesh ''cuda'' (VList [VInt 0]))
      (VTensor [2, 1, 3] [1, 2, 3, 4, 5, 6]) ?w4 = (Inr ex_dinput, ?w5)"
    by (simp add: run_eval)
  have f: "forward_pass ex_externals_failing rlog_rank0 0 ex_mg ex_dinput ?w5 =
     (Inl (RuntimeError ''forward pass failed''), ?wf)"
    by (simp add: run_eval)
  note failure = process_group_release [of ex_externals_failing rlog_rank0 0 1 "VList [VInt 0]" "''GPT2''"
      ex_config ex_cli_args ex_world "RuntimeError ''forward pass failed''" ?wf
      ?w1 ?w2 "VTensor [2, 1, 3] [1, 2, 3, 4, 5, 6]" ex_mg ex_pass_outputs ?w3
      "DeviceMesh ''cuda'' (VList [VInt 0])" ex_mg ?w4 ex_dinput ?w5 ?wf]
  from failure s j p m d f have b:
    "before_release ex_externals_failing rlog_rank0 0 1 (VList [VInt 0]) ''GPT2'' ex_config ex_cli_args ex_world =
       (Inl (RuntimeError ''forward pass failed''), ?wf)"
    by blast
  with failure have c:
    "device_fn ex_externals_failing rlog_rank0 0 1 (VList [VInt 0]) ''GPT2'' ex_config ex_cli_args ex_world =
       (Inl (RuntimeError ''forward pass failed''), ?wf) \<and>
     count_list (drop (length (calls ex_world)) (calls ?wf)) DestroyProcessGroup = 0"
    by blast
  from a b c show ?thesis by (simp add: ex_world_def)
qed

text \<open>
  C1 as stated fails: when the timed forward passes raise, \<open>device_fn\<close> raises that
  exception having joined the process group once and released it not at all.
\<close>

theorem release_skipped_example:
  "fst (device_fn ex_externals_failing rlog_rank0 0 1 (VList [VInt 0]) ''GPT2'' ex_config ex_cli_args ex_world) =
     Inl (RuntimeError ''forward pass failed'') \<and>
   count_list (calls (snd (device_fn ex_externals_failing rlog_rank0 0 1 (VList [VInt 0]) ''GPT2''
      ex_config ex_cli_args ex_world))) (InitProcessGroup ''nccl'' 0 1) = 1 \<and>
   count_list (calls (snd (device_fn ex_externals_failing rlog_rank0 0 1 (VList [VInt 0]) ''GPT2''
      ex_config ex_cli_args ex_world))) DestroyProcessGroup = 0"
  by (simp add: ex_run_fail ex_calls_input_def)

text \<open>
  C6, as amended. In a run whose statements succeed, the Executing step invokes the
  distributed model, the value that \<open>distribute_module\<close> returned for the model of the
  graph, on the one distributed input, the value that \<open>distribute_tensor\<close> returned for
  the synthesized input: first 2 times as an uninstrumented warm-up, then 4 times under
  timing instrumentation. The timings of the 4 timed invocations are aggregated, the
  aggregate is reduced across the ranks by one collective reduction, and the reduced
  time is the one reported in the trace; the release follows. The counts 2 and 4 are the
  same for every model configuration and every run configuration: they are constants
  of \<open>device_fn\<close>.
\<close>

theorem executing_step_repeat_counts:
  assumes s: "setup_environ rank w = (Inr (), w1)"
    and j: "initialize X rank ws w1 = (Inr (), w2)"
    and p: "run_autosharding X mc cfg cargs w2 = (Inr (inputs, mg, po), w3)"
    and m: "distribute_parameters X rlog rank dm mg po w3 = (Inr (mesh, mg'), w4)"
    and d: "shard_input X rlog rank mg' mesh inputs w4 = (Inr dinputs, w5)"
    and f: "forward_pass X rlog rank mg' dinputs w5 = (Inr (), w6)"
  shows "(\<exists>tsm t. tensor_sharding_map po = Inr tsm \<and>
            distribute_module X
              (logged rlog rank MsgDistributing Info (record_call (NewDeviceMesh ''cuda'' dm) w3))
              (model mg) (DeviceMesh ''cuda'' dm) rank tsm = Inr (model mg', t)) \<and>
         (\<exists>pl. input_sharding_loop (nodes mg) None = Inr (Some pl) \<and>
            distribute_tensor X (input_world rlog rank pl w4) inputs mesh pl = Inr dinputs) \<and>
         (\<exists>rs total. length rs = 4 \<and>
            calls w6 = calls w5 @ replicate 2 (Invoke (model mg') [dinputs] False) @
                       replicate 4 (Invoke (model mg') [dinputs] True) @
                       [AllReduce (aggregate X (map snd rs))] \<and>
            (\<forall>i<4. invoke X (w5\<lparr>calls := calls w5 @ replicate 2 (Invoke (model mg') [dinputs] False) @
                                           replicate i (Invoke (model mg') [dinputs] True)\<rparr>)
                      (model mg') [dinputs] = Inr (rs ! i)) \<and>
            all_reduce X (w5\<lparr>calls := calls w5 @ replicate 2 (Invoke (model mg') [dinputs] False) @
                                        replicate 4 (Invoke (model mg') [dinputs] True)\<rparr>)
              (aggregate X (map snd rs)) = Inr total \<and>
            log w6 = rlog rank (MsgForwardFinished total) Info (log w5)) \<and>
         device_fn X rlog rank ws dm mc cfg cargs w =
           call_proc DestroyProcessGroup (\<lambda>w. destroy_process_group X w) w6"
proof -
  from distribute_parameters_Inr [OF m] have
    n: "nodes mg' = nodes mg" and
    1: "\<exists>tsm t. tensor_sharding_map po = Inr tsm \<and>
            distribute_module X
              (logged rlog rank MsgDistributing Info (record_call (NewDeviceMesh ''cuda'' dm) w3))
              (model mg) (DeviceMesh ''cuda'' dm) rank tsm = Inr (model mg', t)"
    by blast+
  from shard_input_Inr [OF d] n have
    2: "\<exists>pl. input_sharding_loop (nodes mg) None = Inr (Some pl) \<and>
            distribute_tensor X (input_world rlog rank pl w4) inputs mesh pl = Inr dinputs"
    by auto
  from forward_pass_Inr [OF f] have
    3: "\<exists>rs total. length rs = 4 \<and>
            calls w6 = calls w5 @ replicate 2 (Invoke (model mg') [dinputs] False) @
                       replicate 4 (Invoke (model mg') [dinputs] True) @
                       [AllReduce (aggregate X (map snd rs))] \<and>
            (\<forall>i<4. invoke X (w5\<lparr>calls := calls w5 @ replicate 2 (Invoke (model mg') [dinputs] False) @
                                           replicate i (Invoke (model mg') [dinputs] True)\<rparr>)
                      (model mg') [dinputs] = Inr (rs ! i)) \<and>
            all_reduce X (w5\<lparr>calls := calls w5 @ replicate 2 (Invoke (model mg') [dinputs] False) @
                                        replicate 4 (Invoke (model mg') [dinputs] True)\<rparr>)
              (aggregate X (map snd rs)) = Inr total \<and>
            log w6 = rlog rank (MsgForwardFinished total) Info (log w5)"
    by blast
  have 4: "device_fn X rlog rank ws dm mc cfg cargs w =
           call_proc DestroyProcessGroup (\<lambda>w. destroy_process_group X w) w6"
    using s j p m d f by (simp add: device_fn_def step_bind_def)
  from 1 2 3 4 show ?thesis by (intro conjI)
qed

text \<open>
  The instance of C6: the run in which every imported function succeeds.
\<close>

theorem executing_step_repeat_counts_witness:
  "(\<exists>tsm t. tensor_sharding_map ex_pass_outputs = Inr tsm \<and>
      distribute_module ex_externals
        (logged rlog_rank0 0 MsgDistributing Info
           (record_call (NewDeviceMesh ''cuda'' (VList [VInt 0])) ex_world_planned))
        (model ex_mg) (DeviceMesh ''cuda'' (VList [VInt 0])) 0 tsm = Inr (model ex_mg, t)) \<and>
   (\<exists>pl. input_sharding_loop (nodes ex_mg) None = Inr (Some pl) \<and>
      distribute_tensor ex_externals (input_world rlog_rank0 0 pl ex_world_materialized)
        (VTensor [2, 1, 3] [1, 2, 3, 4, 5, 6]) (DeviceMesh ''cuda'' (VList [VInt 0])) pl = Inr ex_dinput) \<and>
   (\<exists>(rs :: (pyvalue \<times> int) list) total. length rs = 4 \<and>
      calls ex_world_executed =
        calls ex_world_input @ replicate 2 (Invoke (model ex_mg) [ex_dinput] False) @
        replicate 4 (Invoke (model ex_mg) [ex_dinput] True) @
        [AllReduce (aggregate ex_externals (map snd rs))] \<and>
      all_reduce ex_externals
        (ex_world_input\<lparr>calls := calls ex_world_input @
           replicate 2 (Invoke (model ex_mg) [ex_dinput] False) @
           replicate 4 (Invoke (model ex_mg) [ex_dinput] True)\<rparr>)
        (aggregate ex_externals (map snd rs)) = Inr total \<and>
      log ex_world_executed = rlog_rank0 0 (MsgForwardFinished total) Info (log ex_world_input)) \<and>
   calls ex_world_executed = ex_calls \<and>
   device_fn ex_externals rlog_rank0 0 1 (VList [VInt 0]) ''GPT2'' ex_config ex_cli_args ex_world =
     call_proc DestroyProcessGroup (\<lambda>w. destroy_process_group ex_externals w) ex_world_executed"
proof -
  note t = executing_step_repeat_counts [OF ex_phases]
  have c: "calls ex_world_executed = ex_calls" by (simp add: ex_world_executed_def)
  from t [THEN conjunct1] t [THEN conjunct2, THEN conjunct1]
    t [THEN conjunct2, THEN conjunct2, THEN conjunct1]
    t [THEN conjunct2, THEN conjunct2, THEN conjunct2] c
  show ?thesis by blast
qed

text \<open>
  C6 as stated fails: two run configurations that differ in their repeat counts lead to
  the same invocations, 2 for the warm-up and 4 under timing.
\<close>

theorem repeat_counts_not_configurable_example:
  "ex_cli_args \<noteq> ex_cli_args_other \<and>
   drop 8 (calls (snd (device_fn ex_externals rlog_rank0 0 1 (VList [VInt 0]) ''GPT2''
      ex_config ex_cli_args ex_world))) =
     replicate 2 (Invoke ex_model [ex_dinput] False) @ replicate 4 (Invoke ex_model [ex_dinput] True) @
     [AllReduce 21, DestroyProcessGroup] \<and>
   drop 8 (calls (snd (device_fn ex_externals rlog_rank0 0 1 (VList [VInt 0]) ''GPT2''
      ex_config ex_cli_args_other ex_world))) =
     replicate 2 (Invoke ex_model [ex_dinput] False) @ replicate 4 (Invoke ex_model [ex_dinput] True) @
     [AllReduce 21, DestroyProcessGroup]"
  by (simp add: run_eval ex_cli_args_other_def)

text \<open>
  C7. In a run that has joined the process group, run the autosharding pass and
  distributed the parameters, and whose graph, the one the autosharding pass returned,
  has exactly one \<open>placeholder\<close> node with a spec recorded under
  \<open>results["data_out_0"]["dtensor_spec"]\<close>: \<open>device_fn\<close> calls \<open>distribute_tensor\<close> with the
  tensor that \<open>torch.randn\<close> returned (the one handed to the autosharding pass), the mesh
  \<open>DeviceMesh("cuda", device_mesh)\<close> and the placements of that spec, in a world where
  this process has joined the group under its rank and \<open>RANK\<close> is set to it. If the call
  raises, so does \<open>device_fn\<close>; the value it returns is the input of the forward passes.
\<close>

theorem input_placement_from_input_node:
  assumes s: "setup_environ rank w = (Inr (), w1)"
    and j: "initialize X rank ws w1 = (Inr (), w2)"
    and p: "run_autosharding X mc cfg cargs w2 = (Inr (inputs, mg, po), w3)"
    and m: "distribute_parameters X rlog rank dm mg po w3 = (Inr (mesh, mg'), w4)"
    and one: "filter (\<lambda>nd. op nd = ''placeholder'') (nodes mg) = [inp]"
    and meta: "results inp = Some rs" "rs ''data_out_0'' = Some (Some sp)"
  shows "randn X w2 [batch_size cargs, sequence_length cargs, hidden_size cfg] = Inr inputs \<and>
         autosharding_runner X
           (record_call (Randn [batch_size cargs, sequence_length cargs, hidden_size cfg]) w2)
           mc cfg cargs inputs = Inr (mg, po) \<and>
         mesh = DeviceMesh ''cuda'' dm \<and>
         environ (input_world rlog rank (placements sp) w4) ''RANK'' = Some (str_int rank) \<and>
         InitProcessGroup ''nccl'' rank ws \<in> set (calls (input_world rlog rank (placements sp) w4)) \<and>
         device_fn X rlog rank ws dm mc cfg cargs w =
           (case distribute_tensor X (input_world rlog rank (placements sp) w4) inputs
                   (DeviceMesh ''cuda'' dm) (placements sp) of
              Inl e \<Rightarrow>
                (Inl e, record_call (DistributeTensor inputs (DeviceMesh ''cuda'' dm) (placements sp))
                          (input_world rlog rank (placements sp) w4))
            | Inr dinputs \<Rightarrow>
                step_bind (forward_pass X rlog rank mg' dinputs)
                  (\<lambda>_. call_proc DestroyProcessGroup (\<lambda>w. destroy_process_group X w))
                  (record_call (DistributeTensor inputs (DeviceMesh ''cuda'' dm) (placements sp))
                     (input_world rlog rank (placements sp) w4)))"
proof -
  let ?wd = "input_world rlog rank (placements sp) w4"
  from run_autosharding_Inr [OF p] have
    1: "randn X w2 [batch_size cargs, sequence_length cargs, hidden_size cfg] = Inr inputs"
       "autosharding_runner X
           (record_call (Randn [batch_size cargs, sequence_length cargs, hidden_size cfg]) w2)
           mc cfg cargs inputs = Inr (mg, po)"
    by blast+
  from distribute_parameters_Inr [OF m] have
    2: "mesh = DeviceMesh ''cuda'' dm" and n: "nodes mg' = nodes mg"
    by blast+
  from s have e1: "environ w1 ''RANK'' = Some (str_int rank)"
    by (auto simp: setup_environ_def step_bind_def setenv_def)
  from env_kept_phases(1) [of X rank ws] j have e2: "environ w2 = environ w1"
    unfolding env_kept_def by (metis snd_conv)
  from env_kept_phases(2) [of X mc cfg cargs] p have e3: "environ w3 = environ w2"
    unfolding env_kept_def by (metis snd_conv)
  from env_kept_phases(3) [of X rlog rank dm mg po] m have e4: "environ w4 = environ w3"
    unfolding env_kept_def by (metis snd_conv)
  from e1 e2 e3 e4 have 3: "environ ?wd ''RANK'' = Some (str_int rank)"
    by (simp add: input_world_def logged_def)
  from j have c2: "InitProcessGroup ''nccl'' rank ws \<in> set (calls w2)"
    by (auto simp: initialize_def step_bind_def call_proc_def record_call_def
        split: option.splits prod.splits sum.splits)
  from calls_sat_run_autosharding [of "\<lambda>_. True" cargs cfg mc X] p
  obtain cs3 where "calls w3 = calls w2 @ cs3" unfolding calls_sat_def by (metis snd_conv)
  moreover from calls_sat_distribute_parameters [of "\<lambda>_. True" dm mg rank X rlog po] m
  obtain cs4 where "calls w4 = calls w3 @ cs4" unfolding calls_sat_def by (metis snd_conv)
  ultimately have 4: "InitProcessGroup ''nccl'' rank ws \<in> set (calls ?wd)"
    using c2 by (simp add: input_world_def logged_def)
  from one n have one': "filter (\<lambda>nd. op nd = ''placeholder'') (nodes mg') = [inp]" by simp
  have 5: "device_fn X rlog rank ws dm mc cfg cargs w =
           (case distribute_tensor X ?wd inputs (DeviceMesh ''cuda'' dm) (placements sp) of
              Inl e \<Rightarrow>
                (Inl e, record_call (DistributeTensor inputs (DeviceMesh ''cuda'' dm) (placements sp)) ?wd)
            | Inr dinputs \<Rightarrow>
                step_bind (forward_pass X rlog rank mg' dinputs)
                  (\<lambda>_. call_proc DestroyProcessGroup (\<lambda>w. destroy_process_group X w))
                  (record_call (DistributeTensor inputs (DeviceMesh ''cuda'' dm) (placements sp)) ?wd))"
    using s j p m 2 shard_input_one [OF one' meta, of X rlog rank "DeviceMesh ''cuda'' dm" inputs w4]
    by (simp add: device_fn_def step_bind_def split: sum.splits)
  from 1 2 3 4 5 show ?thesis by (intro conjI)
qed

text \<open>
  The instance of C7: the run in which every imported function succeeds; its input node
  is sharded along dimension 0.
\<close>

theorem input_placement_from_input_node_witness:
  "filter (\<lambda>nd. op nd = ''placeholder'') (nodes ex_mg) = [nd_x_sharded] \<and>
   results nd_x_sharded = Some [''data_out_0'' \<mapsto> Some (DTensorSpec [Shard 0])] \<and>
   distribute_tensor ex_externals (input_world rlog_rank0 0 [Shard 0] ex_world_materialized)
     (VTensor [2, 1, 3] [1, 2, 3, 4, 5, 6]) (DeviceMesh ''cuda'' (VList [VInt 0])) [Shard 0] =
     Inr ex_dinput \<and>
   record_call (DistributeTensor (VTensor [2, 1, 3] [1, 2, 3, 4, 5, 6])
       (DeviceMesh ''cuda'' (VList [VInt 0])) [Shard 0])
     (input_world rlog_rank0 0 [Shard 0] ex_world_materialized) = ex_world_input \<and>
   device_fn ex_externals rlog_rank0 0 1 (VList [VInt 0]) ''GPT2'' ex_config ex_cli_args ex_world =
     step_bind (forward_pass ex_externals rlog_rank0 0 ex_mg ex_dinput)
       (\<lambda>_. call_proc DestroyProcessGroup (\<lambda>w. destroy_process_group ex_externals w))
       ex_world_input"
proof -
  have one: "filter (\<lambda>nd. op nd = ''placeholder'') (nodes ex_mg) = [nd_x_sharded]"
    by (simp add: ex_mg_def nd_x_sharded_def nd_identity_def)
  have meta: "results nd_x_sharded = Some [''data_out_0'' \<mapsto> Some (DTensorSpec [Shard 0])]"
    by (simp add: nd_x_sharded_def)
  have sp: "[''data_out_0'' \<mapsto> Some (DTensorSpec [Shard 0])] ''data_out_0'' =
      Some (Some (DTensorSpec [Shard 0]))"
    by simp
  have dt: "distribute_tensor ex_externals (input_world rlog_rank0 0 [Shard 0] ex_world_materialized)
     (VTensor [2, 1, 3] [1, 2, 3, 4, 5, 6]) (DeviceMesh ''cuda'' (VList [VInt 0])) [Shard 0] =
     Inr ex_dinput"
    by (simp add: ex_externals_def ex_dinput_def)
  have w: "record_call (DistributeTensor (VTensor [2, 1, 3] [1, 2, 3, 4, 5, 6])
       (DeviceMesh ''cuda'' (VList [VInt 0])) [Shard 0])
     (input_world rlog_rank0 0 [Shard 0] ex_world_materialized) = ex_world_input"
    by (simp add: record_call_def input_world_def logged_def ex_world_defs rlog_rank0_def
        ex_calls_input_def ex_log_input_def)
  note t = input_placement_from_input_node [OF ex_phases(1-4) one meta sp]
  from t dt w have dev:
    "device_fn ex_externals rlog_rank0 0 1 (VList [VInt 0]) ''GPT2'' ex_config ex_cli_args ex_world =
     step_bind (forward_pass ex_externals rlog_rank0 0 ex_mg ex_dinput)
       (\<lambda>_. call_proc DestroyProcessGroup (\<lambda>w. destroy_process_group ex_externals w))
       ex_world_input"
    by simp
  from one meta dt w dev show ?thesis by (intro conjI)
qed

end
